theory Spec2Isabelle
  imports Main "HOL-Library.AList" "HOL-Library.Sublist"
begin

section \<open>Data model of the client-side router\<close>

text \<open>
  The router is the closure returned by \<open>create_client\<close>. Its captured variables
  (\<open>cache\<close>, \<open>invalidated\<close>, \<open>load_cache\<close>, \<open>current\<close>, \<open>token\<close>, ...) together with the
  browser state it touches (\<open>location\<close>, \<open>history\<close>, the scroll offset, timers and
  session-store subscriptions) form one record, \<open>client\<close>, that every operation takes and
  returns. JavaScript objects that the code compares with \<open>===\<close> / \<open>!==\<close> (modules, errors,
  stuff objects, navigation results, the cancellation token) carry a reference number;
  fresh objects take it from the counter \<open>next_ref\<close>.
\<close>

type_synonym dict = "(string \<times> string) list"

text \<open>Object spread \<open>{...a, ...b}\<close>: keys of \<open>a\<close> keep their place, later keys override.\<close>

definition spread :: "dict \<Rightarrow> dict \<Rightarrow> dict" where
  "spread a b = fold (\<lambda>(k, v). AList.update k v) b a"

record url =
  origin :: string
  pathname :: string
  search :: string
  hash :: string

definition href :: "url \<Rightarrow> string" where
  "href u = origin u @ pathname u @ search u @ hash u"

datatype err = Error (err_ref: nat) (message: string)

datatype stuff = Stuff (stuff_ref: nat) (entries: dict)

text \<open>\<open>const root_stuff = {}\<close>: one object, created once.\<close>

definition root_stuff :: stuff where
  "root_stuff = Stuff 0 []"

text \<open>A string is truthy when it is present and not empty.\<close>

fun truthy :: "string option \<Rightarrow> bool" where
  "truthy None = False"
| "truthy (Some []) = False"
| "truthy (Some (c # cs)) = True"

text \<open>
  The value a \<open>load\<close> function returns, and what \<open>normalize\<close> makes of it
  (\<open>LoadResult\<close>). \<open>ld_cache\<close> is \<open>cache.maxage\<close> in seconds.
\<close>

record loaded =
  ld_status :: "nat option"
  ld_error :: "err option"
  ld_redirect :: "string option"
  ld_props :: "dict option"
  ld_stuff :: "stuff option"
  ld_dependencies :: "string list option"
  ld_cache :: "nat option"

text \<open>The \<open>load_input\<close> object handed to a \<open>load\<close> function.\<close>

record load_input =
  li_routeId :: "string option"
  li_params :: dict
  li_props :: dict
  li_url :: url
  li_session :: string
  li_stuff :: dict
  li_status :: "nat option"
  li_error :: "err option"

text \<open>
  One call of a \<open>load\<close> function. The getters on \<open>load_input\<close> record what the function
  touched; the call is modelled by the read-log it leaves (which params, whether \<open>url\<close>,
  \<open>session\<close>, \<open>stuff\<close> were read, which resources it passed to \<open>fetch\<close>) and by its outcome:
  \<open>Inl e\<close> when it throws or rejects, \<open>Inr None\<close> when it resolves to a falsy value,
  \<open>Inr (Some l)\<close> otherwise.
\<close>

record load_output =
  lo_reads_params :: "string list"
  lo_reads_url :: bool
  lo_reads_session :: bool
  lo_reads_stuff :: bool
  lo_fetched :: "string list"
  lo_result :: "err + loaded option"

text \<open>
  A component module: its identity, its optional \<open>load\<close> export and its \<open>router\<close> export
  (\<open>Some False\<close> is \<open>router = false\<close>).
\<close>

record component =
  m_ref :: nat
  m_load :: "(load_input \<Rightarrow> load_output) option"
  m_router :: "bool option"

record uses =
  us_params :: "string list"
  us_url :: bool
  us_session :: bool
  us_stuff :: bool
  us_dependencies :: "string list"

record branch_node =
  bn_module :: component
  bn_uses :: uses
  bn_loaded :: "loaded option"
  bn_stuff :: stuff

record nav_state =
  ns_url :: "url option"
  ns_params :: dict
  ns_branch :: "branch_node option list"
  ns_error :: "err option"
  ns_stuff :: stuff
  ns_session_id :: nat

record page =
  pg_error :: "err option"
  pg_params :: dict
  pg_routeId :: "string option"
  pg_status :: "nat option"
  pg_stuff :: stuff
  pg_url :: url

record props =
  pr_components :: "nat list"
  pr_props :: "dict option list"
  pr_page :: "page option"

record nav_result =
  nr_ref :: nat
  nr_redirect :: "string option"
  nr_state :: nav_state
  nr_props :: props

text \<open>
  A dynamic import \<open>a[i]()\<close> either rejects or yields the module. A route is an entry of
  the client manifest: \<open>a\<close> (layouts and leaf), \<open>b\<close> (error boundaries), both with holes.
\<close>

type_synonym loader = "err + component"

record route =
  r_id :: string
  r_exec :: "string \<Rightarrow> dict option"
  r_a :: "loader option list"
  r_b :: "loader option list"
  r_has_shadow :: bool

record intent =
  i_id :: string
  i_url :: url
  i_params :: dict
  i_route :: route

text \<open>The response of the shadow endpoint, as far as \<open>load_route\<close> reads it.\<close>

record response =
  rs_ok :: bool
  rs_status :: nat
  rs_location :: "string option"
  rs_json :: "err + dict option"

text \<open>
  What the router imports or receives and this development takes as given: the options
  of \<open>create_client\<close>, the generated manifest, and the helpers of other files
  (\<open>normalize\<close> of load.js, \<open>normalize_path\<close> of utils/url.js with the trailing-slash
  policy already applied, \<open>native_fetch\<close>, the \<open>URL\<close> constructor, \<open>decodeURI\<close>, which
  throws on a malformed escape, and the outcome of \<open>stores.updated.check()\<close>).
\<close>

record env =
  base :: string
  normalize_path :: "string \<Rightarrow> string"
  decodeURI :: "string \<Rightarrow> string option"
  routes :: "route list"
  default_layout :: loader
  default_error :: loader
  normalize :: "loaded \<Rightarrow> err + loaded"
  new_URL :: "string \<Rightarrow> url \<Rightarrow> url"
  native_fetch :: "string \<Rightarrow> err + response"
  updated_check :: bool
  element_offset :: "string \<Rightarrow> (int \<times> int) option"

text \<open>
  The settled value of the promise \<open>load_route\<close> returns. \<open>Pending\<close> is a promise that
  never settles.
\<close>

datatype load_outcome = Resolved nav_result | Rejected err | Pending

record hist_entry =
  he_index :: "nat option"
  he_url :: url

record nav_opts =
  no_scroll :: "(int \<times> int) option"
  no_keepfocus :: bool
  no_details :: "bool option"

record client =
  cache :: "string \<rightharpoonup> nav_result"
  invalidated :: "(string \<Rightarrow> bool) list"
  load_cache_id :: "string option"
  load_cache_promise :: "load_outcome option"
  before_navigate :: "(url option \<Rightarrow> url option \<Rightarrow> bool) list"
  after_navigate_log :: "(url option \<times> url) list"
  current :: nav_state
  started :: bool
  autoscroll :: bool
  updating :: bool
  session_id :: nat
  session_value :: string
  router_enabled :: bool
  current_history_index :: nat
  scroll_positions :: "nat \<rightharpoonup> int \<times> int"
  page_var :: "page option"
  token :: nat
  invalidating :: bool
  navigating :: "(url option \<times> url) option"
  root_props :: "props option"
  location :: url
  history :: "hist_entry list"
  history_pos :: nat
  scroll_state :: "int \<times> int"
  now :: nat
  clears :: "(nat \<times> string \<times> nat) list"
  next_ref :: nat
  load_log :: "nat list"

text \<open>
  \<open>clears\<close> holds, for every cached result, the pending \<open>clear\<close> closure of
  \<open>get_navigation_result_from_branch\<close>: the time its timeout is due, its key and the
  result it guards. \<open>load_log\<close> is the list of modules whose \<open>load\<close> has been called, in
  call order; the code keeps no such list, it is here so that "no loader ran" can be
  said. \<open>now\<close> is the clock in milliseconds.
\<close>

section \<open>load_node\<close>

record load_node_opts =
  o_status :: "nat option"
  o_error :: "err option"
  o_module :: component
  o_url :: url
  o_params :: dict
  o_stuff :: stuff
  o_props :: "dict option"
  o_routeId :: "string option"

text \<open>\<open>add_dependency\<close>: the dependency set holds the resolved href once.\<close>

definition add_dependency :: "env \<Rightarrow> url \<Rightarrow> string \<Rightarrow> string list \<Rightarrow> string list" where
  "add_dependency e u dep deps = List.insert (href (new_URL e dep u)) deps"

definition missing_return :: string where
  "missing_return = ''load function must return a value''"

text \<open>
  The \<open>load_input\<close> object: \<open>props || {}\<close>, the session value at the time of the call,
  a copy of the inherited stuff, \<open>status ?? null\<close> and \<open>error ?? null\<close>.
\<close>

definition load_input_for :: "load_node_opts \<Rightarrow> client \<Rightarrow> load_input" where
  "load_input_for opts s =
     \<lparr>li_routeId = o_routeId opts, li_params = o_params opts,
      li_props = (case o_props opts of Some p \<Rightarrow> p | None \<Rightarrow> []),
      li_url = o_url opts, li_session = session_value s,
      li_stuff = entries (o_stuff opts),
      li_status = o_status opts, li_error = o_error opts\<rparr>"

definition load_node :: "env \<Rightarrow> load_node_opts \<Rightarrow> client \<Rightarrow> (err + branch_node) \<times> client" where
  "load_node e opts s =
    (let u = o_url opts;
         deps0 = (case o_props opts of Some p \<Rightarrow> [href u] | None \<Rightarrow> []);
         uses0 = \<lparr>us_params = [], us_url = False, us_session = False, us_stuff = False,
                  us_dependencies = deps0\<rparr>;
         node0 = \<lparr>bn_module = o_module opts, bn_uses = uses0, bn_loaded = None,
                  bn_stuff = o_stuff opts\<rparr>
     in case m_load (o_module opts) of
          Some load \<Rightarrow>
            (let out = load (load_input_for opts s);
                 s1 = s\<lparr>load_log := load_log s @ [m_ref (o_module opts)]\<rparr>;
                 uses1 = \<lparr>us_params =
                            remdups (filter (\<lambda>k. k \<in> fst ` set (o_params opts)) (lo_reads_params out)),
                          us_url = lo_reads_url out, us_session = lo_reads_session out,
                          us_stuff = lo_reads_stuff out,
                          us_dependencies =
                            fold (\<lambda>requested. add_dependency e u (href (new_URL e requested u)))
                              (lo_fetched out) deps0\<rparr>
             in case lo_result out of
                  Inl thrown \<Rightarrow> (Inl thrown, s1)
                | Inr None \<Rightarrow>
                    (Inl (Error (next_ref s1) missing_return), s1\<lparr>next_ref := Suc (next_ref s1)\<rparr>)
                | Inr (Some l) \<Rightarrow>
                    (case normalize e l of
                       Inl thrown \<Rightarrow> (Inl thrown, s1)
                     | Inr nl \<Rightarrow>
                         (Inr \<lparr>bn_module = o_module opts,
                               bn_uses = uses1\<lparr>us_dependencies :=
                                 (case ld_dependencies nl of
                                    Some ds \<Rightarrow> fold (add_dependency e u) ds (us_dependencies uses1)
                                  | None \<Rightarrow> us_dependencies uses1)\<rparr>,
                               bn_loaded = Some nl,
                               bn_stuff = (case ld_stuff nl of Some st \<Rightarrow> st | None \<Rightarrow> o_stuff opts)\<rparr>,
                          s1)))
        | None \<Rightarrow>
            (case o_props opts of
               Some p \<Rightarrow>
                 (case normalize e \<lparr>ld_status = None, ld_error = None, ld_redirect = None,
                         ld_props = Some p, ld_stuff = None, ld_dependencies = None,
                         ld_cache = None\<rparr> of
                    Inl thrown \<Rightarrow> (Inl thrown, s)
                  | Inr nl \<Rightarrow> (Inr (node0\<lparr>bn_loaded := Some nl\<rparr>), s))
             | None \<Rightarrow> (Inr node0, s)))"

section \<open>get_navigation_result_from_branch\<close>

record gnr_opts =
  g_url :: url
  g_params :: dict
  g_stuff :: stuff
  g_branch :: "branch_node option list"
  g_status :: "nat option"
  g_error :: "err option"
  g_routeId :: "string option"

definition has_redirect :: "branch_node \<Rightarrow> bool" where
  "has_redirect f = (case bn_loaded f of Some l \<Rightarrow> truthy (ld_redirect l) | None \<Rightarrow> False)"

definition node_redirect :: "branch_node option \<Rightarrow> string option" where
  "node_redirect f =
     (case f of None \<Rightarrow> None
      | Some n \<Rightarrow> (case bn_loaded n of None \<Rightarrow> None | Some l \<Rightarrow> ld_redirect l))"

definition node_cache :: "branch_node list \<Rightarrow> nat option" where
  "node_cache filtered =
     (if filtered = [] then None
      else case bn_loaded (last filtered) of None \<Rightarrow> None | Some l \<Rightarrow> ld_cache l)"

text \<open>
  \<open>page_changed\<close> compares object identities: \<open>current.error !== error\<close> and
  \<open>current.stuff !== stuff\<close>.
\<close>

definition page_changed :: "nav_state \<Rightarrow> url \<Rightarrow> err option \<Rightarrow> stuff \<Rightarrow> bool" where
  "page_changed cur u error st =
     ((case ns_url cur of None \<Rightarrow> True | Some cu \<Rightarrow> href u \<noteq> href cu)
      \<or> map_option err_ref (ns_error cur) \<noteq> map_option err_ref error
      \<or> stuff_ref (ns_stuff cur) \<noteq> stuff_ref st)"

text \<open>
  The delay of \<open>setTimeout\<close> is a WebIDL \<open>long\<close>: the number is taken modulo \<open>2^32\<close>
  and read as a signed 32-bit integer, and a negative delay counts as 0. A delay of
  \<open>2^31\<close> milliseconds or more therefore does not wait that long.
\<close>

definition timer_delay :: "nat \<Rightarrow> nat" where
  "timer_delay ms = (let x = ms mod 2 ^ 32 in if 2 ^ 31 \<le> x then 0 else x)"

text \<open>
  When the leaf declares \<open>cache\<close>, the result is stored under \<open>url.pathname + url.search\<close>
  and its \<open>clear\<close> closure is armed twice, by \<open>setTimeout(clear, maxage * 1000)\<close> and by a
  subscription to the session store; both are the one entry added to \<open>clears\<close>.
\<close>

definition get_navigation_result_from_branch :: "gnr_opts \<Rightarrow> client \<Rightarrow> nav_result \<times> client" where
  "get_navigation_result_from_branch g s =
    (let filtered = List.map_filter id (g_branch g);
         redirect = find has_redirect filtered;
         result = \<lparr>nr_ref = next_ref s,
                   nr_redirect = node_redirect redirect,
                   nr_state = \<lparr>ns_url = Some (g_url g), ns_params = g_params g,
                               ns_branch = g_branch g, ns_error = g_error g,
                               ns_stuff = g_stuff g, ns_session_id = session_id s\<rparr>,
                   nr_props = \<lparr>pr_components = map (\<lambda>node. m_ref (bn_module node)) filtered,
                               pr_props = map (\<lambda>node. case bn_loaded node of
                                                   Some l \<Rightarrow> ld_props l | None \<Rightarrow> None) filtered,
                               pr_page =
                                 (if page_changed (current s) (g_url g) (g_error g) (g_stuff g)
                                  then Some \<lparr>pg_error = g_error g, pg_params = g_params g,
                                             pg_routeId = g_routeId g, pg_status = g_status g,
                                             pg_stuff = g_stuff g, pg_url = g_url g\<rparr>
                                  else None)\<rparr>\<rparr>;
         s1 = s\<lparr>next_ref := Suc (next_ref s)\<rparr>
     in case node_cache filtered of
          Some maxage \<Rightarrow>
            (let key = pathname (g_url g) @ search (g_url g)
             in (result,
                 s1\<lparr>clears := clears s1 @ [(now s1 + timer_delay (maxage * 1000), key,
                                         nr_ref result)],
                    cache := (cache s1)(key \<mapsto> result)\<rparr>))
        | None \<Rightarrow> (result, s1))"

section \<open>load_root_error_page\<close>

definition fresh_stuff :: "dict \<Rightarrow> client \<Rightarrow> stuff \<times> client" where
  "fresh_stuff d s = (Stuff (next_ref s) d, s\<lparr>next_ref := Suc (next_ref s)\<rparr>)"

definition loaded_stuff :: "branch_node \<Rightarrow> stuff option" where
  "loaded_stuff n = (case bn_loaded n of None \<Rightarrow> None | Some l \<Rightarrow> ld_stuff l)"

definition stuff_entries :: "stuff option \<Rightarrow> dict" where
  "stuff_entries st = (case st of None \<Rightarrow> [] | Some x \<Rightarrow> entries x)"

record error_page_opts =
  ep_status :: "nat option"
  ep_error :: err
  ep_url :: url
  ep_routeId :: "string option"

definition load_root_error_page :: "env \<Rightarrow> error_page_opts \<Rightarrow> client \<Rightarrow> (err + nav_result) \<times> client" where
  "load_root_error_page e ep s =
    (case default_layout e of
       Inl x \<Rightarrow> (Inl x, s)
     | Inr layout_module \<Rightarrow>
        (case fresh_stuff [] s of (st0, s0) \<Rightarrow>
        (case load_node e \<lparr>o_status = None, o_error = None, o_module = layout_module,
                 o_url = ep_url ep, o_params = [], o_stuff = st0, o_props = None,
                 o_routeId = ep_routeId ep\<rparr> s0 of
           (Inl x, s1) \<Rightarrow> (Inl x, s1)
         | (Inr root_layout, s1) \<Rightarrow>
            (case default_error e of
               Inl x \<Rightarrow> (Inl x, s1)
             | Inr error_module \<Rightarrow>
                (case (case loaded_stuff root_layout of
                         Some st \<Rightarrow> (st, s1) | None \<Rightarrow> fresh_stuff [] s1) of (st1, s2) \<Rightarrow>
                (case load_node e \<lparr>o_status = ep_status ep, o_error = Some (ep_error ep),
                         o_module = error_module, o_url = ep_url ep, o_params = [],
                         o_stuff = st1, o_props = None, o_routeId = ep_routeId ep\<rparr> s2 of
                   (Inl x, s3) \<Rightarrow> (Inl x, s3)
                 | (Inr root_error, s3) \<Rightarrow>
                    (case fresh_stuff (spread (stuff_entries (loaded_stuff root_layout))
                                              (stuff_entries (loaded_stuff root_error))) s3 of
                       (st, s4) \<Rightarrow>
                        (case get_navigation_result_from_branch
                                \<lparr>g_url = ep_url ep, g_params = [], g_stuff = st,
                                 g_branch = [Some root_layout, Some root_error],
                                 g_status = ep_status ep, g_error = Some (ep_error ep),
                                 g_routeId = ep_routeId ep\<rparr> s4 of
                           (r, s5) \<Rightarrow> (Inr r, s5)))))))))"

section \<open>load_route\<close>

record changed =
  ch_url :: bool
  ch_params :: "string list"
  ch_session :: bool

text \<open>\<open>current.url && { url: ..., params: ..., session: ... }\<close>\<close>

definition compute_changed :: "intent \<Rightarrow> client \<Rightarrow> changed option" where
  "compute_changed it s =
     (case ns_url (current s) of
        None \<Rightarrow> None
      | Some cu \<Rightarrow>
          Some \<lparr>ch_url = (i_id it \<noteq> pathname cu @ search cu),
                ch_params = filter (\<lambda>key. map_of (ns_params (current s)) key \<noteq> map_of (i_params it) key)
                              (map fst (i_params it)),
                ch_session = (session_id s \<noteq> ns_session_id (current s))\<rparr>)"

text \<open>
  The test that decides between reloading position \<open>i\<close> and reusing the previous node.
  \<open>None\<close> is the TypeError of reading \<open>changed.url\<close> when \<open>changed\<close> is \<open>null\<close>.
\<close>

definition changed_since_last_render ::
  "changed option \<Rightarrow> (string \<Rightarrow> bool) list \<Rightarrow> bool \<Rightarrow> component \<Rightarrow> branch_node option \<Rightarrow> bool option" where
  "changed_since_last_render ch preds stuff_changed module previous =
     (case previous of
        None \<Rightarrow> Some True
      | Some prev \<Rightarrow>
          if m_ref module \<noteq> m_ref (bn_module prev) then Some True
          else (case ch of
                  None \<Rightarrow> None
                | Some c \<Rightarrow>
                    Some ((ch_url c \<and> us_url (bn_uses prev))
                          \<or> list_ex (\<lambda>param. param \<in> set (us_params (bn_uses prev))) (ch_params c)
                          \<or> (ch_session c \<and> us_session (bn_uses prev))
                          \<or> list_ex (\<lambda>dep. list_ex (\<lambda>fn. fn dep) preds) (us_dependencies (bn_uses prev))
                          \<or> (stuff_changed \<and> us_stuff (bn_uses prev)))))"

definition ends_with_slash :: "string \<Rightarrow> bool" where
  "ends_with_slash p = (p \<noteq> [] \<and> last p = CHR ''/'')"

definition shadow_url :: "url \<Rightarrow> string" where
  "shadow_url u =
     pathname u @ (if ends_with_slash (pathname u) then [] else ''/'') @ ''__data.json'' @ search u"

text \<open>
  What one pass through the body of the \<open>load:\<close> loop leaves behind: either the function
  has returned (a redirect), or the loop variables \<open>node\<close>, \<open>status\<close>, \<open>error\<close> and
  \<open>stuff_changed\<close> have their values at the end of the \<open>try\<close>/\<open>catch\<close>.
\<close>

datatype position_result =
    Return nav_result
  | Loaded "branch_node option" "nat option" "err option" bool

definition redirect_result :: "string option \<Rightarrow> client \<Rightarrow> position_result \<times> client" where
  "redirect_result target s =
     (Return \<lparr>nr_ref = next_ref s, nr_redirect = target, nr_state = current s,
              nr_props = \<lparr>pr_components = [], pr_props = [], pr_page = None\<rparr>\<rparr>,
      s\<lparr>next_ref := Suc (next_ref s)\<rparr>)"

text \<open>\<open>catch (e) { status = 500; error = coalesce_to_error(e); }\<close>; every thrown value is an Error here.\<close>

definition caught :: "err \<Rightarrow> bool \<Rightarrow> client \<Rightarrow> position_result \<times> client" where
  "caught x stuff_changed s = (Loaded None (Some 500) (Some x) stuff_changed, s)"

text \<open>The argument of the \<open>load_node\<close> call in the \<open>load:\<close> loop.\<close>

definition position_opts :: "intent \<Rightarrow> component \<Rightarrow> dict option \<Rightarrow> stuff \<Rightarrow> load_node_opts" where
  "position_opts it module props st =
     \<lparr>o_status = None, o_error = None, o_module = module, o_url = i_url it,
      o_params = i_params it, o_stuff = st, o_props = props,
      o_routeId = Some (r_id (i_route it))\<rparr>"

text \<open>From \<open>if (!error)\<close> to the end of the \<open>try\<close> block.\<close>

definition load_changed ::
  "env \<Rightarrow> intent \<Rightarrow> component \<Rightarrow> bool \<Rightarrow> dict option \<Rightarrow> stuff \<Rightarrow> bool \<Rightarrow> nat option \<Rightarrow> err option
     \<Rightarrow> client \<Rightarrow> position_result \<times> client" where
  "load_changed e it module is_shadow_page props st stuff_changed status error s =
     (case error of
        Some x \<Rightarrow> (Loaded None status (Some x) stuff_changed, s)
      | None \<Rightarrow>
         (case load_node e (position_opts it module props st) s of
            (Inl x, s1) \<Rightarrow> caught x stuff_changed s1
          | (Inr node0, s1) \<Rightarrow>
             (let node = (if is_shadow_page
                          then node0\<lparr>bn_uses := (bn_uses node0)\<lparr>us_url := True\<rparr>\<rparr> else node0)
              in case bn_loaded node of
                   None \<Rightarrow> (Loaded (Some node) status None stuff_changed, s1)
                 | Some l \<Rightarrow>
                     if truthy (ld_redirect l) then redirect_result (ld_redirect l) s1
                     else (Loaded (Some node)
                             (case ld_error l of Some x \<Rightarrow> ld_status l | None \<Rightarrow> status)
                             (ld_error l)
                             (stuff_changed \<or> ld_stuff l \<noteq> None), s1))))"

definition error_of_json :: "dict \<Rightarrow> client \<Rightarrow> err \<times> client" where
  "error_of_json d s =
     (Error (next_ref s) (case map_of d ''message'' of Some m \<Rightarrow> m | None \<Rightarrow> []),
      s\<lparr>next_ref := Suc (next_ref s)\<rparr>)"

text \<open>\<open>current.branch[i]\<close>, and \<open>has_shadow && i === a.length - 1\<close>.\<close>

definition previous_node :: "client \<Rightarrow> nat \<Rightarrow> branch_node option" where
  "previous_node s i =
     (if i < length (ns_branch (current s)) then ns_branch (current s) ! i else None)"

definition is_shadow_page :: "intent \<Rightarrow> nat \<Rightarrow> bool" where
  "is_shadow_page it i = (r_has_shadow (i_route it) \<and> Suc i = length (r_a (i_route it)))"

text \<open>The body of the \<open>try\<close> block for a position whose loader \<open>a[i]\<close> is present.\<close>

definition load_position ::
  "env \<Rightarrow> intent \<Rightarrow> changed option \<Rightarrow> nat \<Rightarrow> loader \<Rightarrow> stuff \<Rightarrow> bool \<Rightarrow> nat option
     \<Rightarrow> client \<Rightarrow> position_result \<times> client" where
  "load_position e it ch i ld st stuff_changed status s =
     (case ld of
        Inl x \<Rightarrow> caught x stuff_changed s
      | Inr module \<Rightarrow>
         (let previous = previous_node s i
          in case changed_since_last_render ch (invalidated s) stuff_changed module previous of
               None \<Rightarrow>
                 caught (Error (next_ref s) ''Cannot read properties of null'') stuff_changed
                   (s\<lparr>next_ref := Suc (next_ref s)\<rparr>)
             | Some False \<Rightarrow> (Loaded previous status None stuff_changed, s)
             | Some True \<Rightarrow>
                (if is_shadow_page it i then
                      (case native_fetch e (shadow_url (i_url it)) of
                         Inl x \<Rightarrow> caught x stuff_changed s
                       | Inr res \<Rightarrow>
                          if rs_ok res then
                            (if truthy (rs_location res) then redirect_result (rs_location res) s
                             else if rs_status res = 204
                               then load_changed e it module True (Some []) st stuff_changed status None s
                             else (case rs_json res of
                                     Inl x \<Rightarrow> caught x stuff_changed s
                                   | Inr props \<Rightarrow>
                                       load_changed e it module True props st stuff_changed status None s))
                          else
                            (case rs_json res of
                               Inl x \<Rightarrow>
                                 load_changed e it module True (Some []) st stuff_changed
                                   (Some (rs_status res))
                                   (Some (Error (next_ref s) ''Failed to load data''))
                                   (s\<lparr>next_ref := Suc (next_ref s)\<rparr>)
                             | Inr None \<Rightarrow>
                                 load_changed e it module True (Some []) st stuff_changed
                                   (Some (rs_status res)) None s
                             | Inr (Some d) \<Rightarrow>
                                 (case error_of_json d s of (x, s1) \<Rightarrow>
                                    load_changed e it module True (Some []) st stuff_changed
                                      (Some (rs_status res)) (Some x) s1)))
                    else load_changed e it module False (Some []) st stuff_changed status None s)))"

text \<open>
  The inner loop of the recovery walk, \<open>while (!(node_loaded = branch[j])) j -= 1\<close>,
  started at \<open>j\<close>. Once \<open>j\<close> is negative \<open>branch[j]\<close> is \<open>undefined\<close> for ever, so the loop
  does not end: that is \<open>None\<close>.
\<close>

fun find_node_loaded :: "branch_node option list \<Rightarrow> nat \<Rightarrow> (nat \<times> branch_node) option" where
  "find_node_loaded branch 0 =
     (case (if 0 < length branch then branch ! 0 else None) of
        Some n \<Rightarrow> Some (0, n) | None \<Rightarrow> None)"
| "find_node_loaded branch (Suc j) =
     (case (if Suc j < length branch then branch ! Suc j else None) of
        Some n \<Rightarrow> Some (Suc j, n) | None \<Rightarrow> find_node_loaded branch j)"

definition merge_stuff :: "stuff \<Rightarrow> stuff option \<Rightarrow> client \<Rightarrow> stuff \<times> client" where
  "merge_stuff st contribution s =
     (case contribution of
        None \<Rightarrow> (st, s)
      | Some c \<Rightarrow> fresh_stuff (spread (entries st) (entries c)) s)"

text \<open>The argument of the \<open>load_node\<close> call for an error boundary.\<close>

definition boundary_opts ::
  "intent \<Rightarrow> component \<Rightarrow> nat option \<Rightarrow> err \<Rightarrow> branch_node \<Rightarrow> load_node_opts" where
  "boundary_opts it module status error node_loaded =
     \<lparr>o_status = status, o_error = Some error, o_module = module, o_url = i_url it,
      o_params = i_params it, o_stuff = bn_stuff node_loaded, o_props = None,
      o_routeId = Some (r_id (i_route it))\<rparr>"

text \<open>
  The recovery walk \<open>while (i--) { ... }\<close>, entered with the loop variable at its first
  argument, and the fall-back to the root error page after it.
\<close>

fun recover ::
  "env \<Rightarrow> intent \<Rightarrow> nat \<Rightarrow> branch_node option list \<Rightarrow> stuff \<Rightarrow> nat option \<Rightarrow> err
     \<Rightarrow> client \<Rightarrow> load_outcome \<times> client" where
  "recover e it 0 branch st status error s =
     (case load_root_error_page e
             \<lparr>ep_status = status, ep_error = error,
              ep_url = i_url it, ep_routeId = Some (r_id (i_route it))\<rparr> s of
        (Inl x, s1) \<Rightarrow> (Rejected x, s1)
      | (Inr r, s1) \<Rightarrow> (Resolved r, s1))"
| "recover e it (Suc i) branch st status error s =
     (case (if i < length (r_b (i_route it)) then r_b (i_route it) ! i else None) of
        None \<Rightarrow> recover e it i branch st status error s
      | Some boundary \<Rightarrow>
         (case find_node_loaded branch i of
            None \<Rightarrow> (Pending, s)
          | Some (j, node_loaded) \<Rightarrow>
             (case boundary of
                Inl x \<Rightarrow> recover e it i branch st status error s
              | Inr module \<Rightarrow>
                 (case load_node e (boundary_opts it module status error node_loaded) s of
                    (Inl x, s1) \<Rightarrow> recover e it i branch st status error s1
                  | (Inr error_loaded, s1) \<Rightarrow>
                     (case bn_loaded error_loaded of
                        Some l \<Rightarrow>
                          (if ld_error l \<noteq> None then recover e it i branch st status error s1
                           else (case merge_stuff st (ld_stuff l) s1 of (st', s2) \<Rightarrow>
                                  (case get_navigation_result_from_branch
                                          \<lparr>g_url = i_url it, g_params = i_params it, g_stuff = st',
                                           g_branch = take (Suc j) branch @ [Some error_loaded],
                                           g_status = status, g_error = Some error,
                                           g_routeId = Some (r_id (i_route it))\<rparr> s2 of
                                     (r, s3) \<Rightarrow> (Resolved r, s3))))
                      | None \<Rightarrow>
                          (case get_navigation_result_from_branch
                                  \<lparr>g_url = i_url it, g_params = i_params it, g_stuff = st,
                                   g_branch = take (Suc j) branch @ [Some error_loaded],
                                   g_status = status, g_error = Some error,
                                   g_routeId = Some (r_id (i_route it))\<rparr> s1 of
                             (r, s2) \<Rightarrow> (Resolved r, s2)))))))"

text \<open>
  The \<open>load:\<close> loop, from position \<open>i\<close> on; the second list is \<open>a.slice(i)\<close>. A hole in \<open>a\<close>
  is skipped by \<open>continue\<close>, which also skips \<open>branch.push\<close>.
\<close>

fun load_loop ::
  "env \<Rightarrow> intent \<Rightarrow> changed option \<Rightarrow> loader option list \<Rightarrow> nat \<Rightarrow> branch_node option list
     \<Rightarrow> stuff \<Rightarrow> bool \<Rightarrow> nat option \<Rightarrow> client \<Rightarrow> load_outcome \<times> client" where
  "load_loop e it ch [] i branch st stuff_changed status s =
     (case get_navigation_result_from_branch
             \<lparr>g_url = i_url it, g_params = i_params it, g_stuff = st, g_branch = branch,
              g_status = status, g_error = None, g_routeId = Some (r_id (i_route it))\<rparr> s of
        (r, s1) \<Rightarrow> (Resolved r, s1))"
| "load_loop e it ch (None # rest) i branch st stuff_changed status s =
     load_loop e it ch rest (Suc i) branch st stuff_changed status s"
| "load_loop e it ch (Some ld # rest) i branch st stuff_changed status s =
     (case load_position e it ch i ld st stuff_changed status s of
        (Return r, s1) \<Rightarrow> (Resolved r, s1)
      | (Loaded node status' (Some error) stuff_changed', s1) \<Rightarrow>
          recover e it i branch st status' error s1
      | (Loaded node status' None stuff_changed', s1) \<Rightarrow>
          (case merge_stuff st (case node of None \<Rightarrow> None | Some n \<Rightarrow> loaded_stuff n) s1 of
             (st', s2) \<Rightarrow>
               load_loop e it ch rest (Suc i) (branch @ [node]) st' stuff_changed' status' s2))"

text \<open>
  \<open>load_route\<close>. The promise kept in \<open>load_cache\<close> is represented by the value it settles
  to. The preloading \<open>a.forEach((loader) => loader().catch(() => {}))\<close> changes nothing
  the router reads.
\<close>

definition load_route :: "env \<Rightarrow> intent \<Rightarrow> bool \<Rightarrow> client \<Rightarrow> load_outcome \<times> client" where
  "load_route e it no_cache s =
     (case (if load_cache_id s = Some (i_id it) then load_cache_promise s else None) of
        Some promise \<Rightarrow> (promise, s)
      | None \<Rightarrow>
         (case (if no_cache then None else cache s (i_id it)) of
            Some cached \<Rightarrow> (Resolved cached, s)
          | None \<Rightarrow>
              load_loop e it (compute_changed it s) (r_a (i_route it)) 0 [] root_stuff False
                (Some 200) s))"

text \<open>
  The \<open>load:\<close> loop seen from inside. \<open>loop_at e it ch s i\<close> is what the loop, begun in
  state \<open>s\<close>, holds on arriving at the top of iteration \<open>i\<close>: the variables \<open>branch\<close>,
  \<open>stuff\<close>, \<open>stuff_changed\<close> and \<open>status\<close>, and the client state. It is \<open>None\<close> when the
  loop does not get there, because an earlier iteration has returned or has gone into
  the recovery walk, or because \<open>a\<close> has no such position.
\<close>

record loop_vars =
  lv_branch :: "branch_node option list"
  lv_stuff :: stuff
  lv_stuff_changed :: bool
  lv_status :: "nat option"

fun loop_at :: "env \<Rightarrow> intent \<Rightarrow> changed option \<Rightarrow> client \<Rightarrow> nat \<Rightarrow> (loop_vars \<times> client) option" where
  "loop_at e it ch s 0 =
     Some (\<lparr>lv_branch = [], lv_stuff = root_stuff, lv_stuff_changed = False,
            lv_status = Some 200\<rparr>, s)"
| "loop_at e it ch s (Suc i) =
     (case loop_at e it ch s i of
        None \<Rightarrow> None
      | Some (v, si) \<Rightarrow>
          if i < length (r_a (i_route it)) then
            (case r_a (i_route it) ! i of
               None \<Rightarrow> Some (v, si)
             | Some ld \<Rightarrow>
                (case load_position e it ch i ld (lv_stuff v) (lv_stuff_changed v) (lv_status v)
                        si of
                   (Return r, s1) \<Rightarrow> None
                 | (Loaded node status' (Some error) stuff_changed', s1) \<Rightarrow> None
                 | (Loaded node status' None stuff_changed', s1) \<Rightarrow>
                     (case merge_stuff (lv_stuff v)
                             (case node of None \<Rightarrow> None | Some n \<Rightarrow> loaded_stuff n) s1 of
                        (st', s2) \<Rightarrow>
                          Some (\<lparr>lv_branch = lv_branch v @ [node], lv_stuff = st',
                                 lv_stuff_changed = stuff_changed', lv_status = status'\<rparr>, s2))))
          else None)"










section \<open>get_navigation_intent and prefetch\<close>

text \<open>\<open>for (const route of routes) { const params = route.exec(path); if (params) ... }\<close>\<close>

fun find_route :: "route list \<Rightarrow> string \<Rightarrow> (route \<times> dict) option" where
  "find_route [] path = None"
| "find_route (r # rs) path =
     (case r_exec r path of Some params \<Rightarrow> Some (r, params) | None \<Rightarrow> find_route rs path)"

text \<open>\<open>url.pathname.slice(base.length) || '/'\<close>\<close>

definition stripped :: "env \<Rightarrow> url \<Rightarrow> string" where
  "stripped e u =
     (if drop (length (base e)) (pathname u) = [] then ''/''
      else drop (length (base e)) (pathname u))"

text \<open>\<open>Inl\<close> is the URIError that \<open>decodeURI\<close> throws; \<open>Inr None\<close> is \<open>undefined\<close>.\<close>

definition get_navigation_intent :: "env \<Rightarrow> url \<Rightarrow> client \<Rightarrow> (err + intent option) \<times> client" where
  "get_navigation_intent e u s =
     (if origin u \<noteq> origin (location s) \<or> \<not> prefix (base e) (pathname u) then (Inr None, s)
      else (case decodeURI e (stripped e u) of
                 None \<Rightarrow> (Inl (Error (next_ref s) ''URI malformed''), s\<lparr>next_ref := Suc (next_ref s)\<rparr>)
               | Some path \<Rightarrow>
                   (case find_route (routes e) path of
                      None \<Rightarrow> (Inr None, s)
                    | Some (r, params) \<Rightarrow>
                        (Inr (Some \<lparr>i_id = normalize_path e (pathname u) @ search u, i_url = u,
                                    i_params = params, i_route = r\<rparr>), s))))"

definition not_in_app :: string where
  "not_in_app = ''Attempted to prefetch a URL that does not belong to this app''"

text \<open>The inner \<open>prefetch(url)\<close>; the value is what the returned promise settles to.\<close>

definition prefetch :: "env \<Rightarrow> url \<Rightarrow> client \<Rightarrow> load_outcome \<times> client" where
  "prefetch e u s =
     (case get_navigation_intent e u s of
        (Inl x, s1) \<Rightarrow> (Rejected x, s1)
      | (Inr None, s1) \<Rightarrow>
          (Rejected (Error (next_ref s1) not_in_app), s1\<lparr>next_ref := Suc (next_ref s1)\<rparr>)
      | (Inr (Some it), s1) \<Rightarrow>
          (case load_route e it False s1 of
             (promise, s2) \<Rightarrow>
               (promise, s2\<lparr>load_cache_promise := Some promise, load_cache_id := Some (i_id it)\<rparr>)))"

section \<open>update, navigate and goto\<close>

text \<open>
  \<open>update\<close> is an async function: it runs in pieces, and between two pieces any other
  code of the client may run (another navigation may start, resume or commit). The
  pieces are

    \<^item> \<open>update_start\<close>: from the call to \<open>await load_route(...)\<close>, or to the
      \<open>await load_root_error_page(...)\<close> of the synthetic 404;
    \<^item> \<open>update_resume\<close>: from the settling of that load, through the token check and
      \<open>invalidated.length = 0\<close>, to the next \<open>await\<close>, which is that of
      \<open>load_root_error_page\<close> for a redirect loop, that of \<open>stores.updated.check()\<close> for a
      page with status 400 or more, and otherwise \<open>await tick()\<close>, reached after the
      history entry and the render;
    \<^item> \<open>update_continue\<close>: from the settling of one of the first two of these to
      \<open>await tick()\<close>;
    \<^item> \<open>update_finish\<close>: from \<open>await tick()\<close> to the end.

  What has to survive the first wait is the record \<open>pending\<close>: the arguments, the captured
  \<open>current_token\<close> and the settled value of the load. A branch load (\<open>load_route\<close>,
  \<open>load_root_error_page\<close>) is run in one piece at the place where \<open>update\<close> calls it: the
  waits inside a branch load are not interleaved with other code here. The token object
  \<open>{}\<close> is a generation number: each allocation differs from all earlier ones.
\<close>

record pending =
  p_url :: url
  p_redirect_chain :: "string list"
  p_opts :: "nav_opts option"
  p_callback :: "url option option"
  p_token :: nat
  p_load :: load_outcome

text \<open>
  How a call that starts a navigation ends its synchronous part: waiting for a load,
  blocked by a \<open>before_navigate\<close> observer, thrown, or gone to the server
  (\<open>native_navigation\<close>, whose promise never settles).
\<close>

datatype nav_start = NavStarted pending | NavBlocked | NavThrew err | NavNative

definition native_navigation :: "url \<Rightarrow> client \<Rightarrow> client" where
  "native_navigation u s = s\<lparr>location := u\<rparr>"

definition update_scroll_positions :: "nat \<Rightarrow> client \<Rightarrow> client" where
  "update_scroll_positions index s =
     s\<lparr>scroll_positions := (scroll_positions s)(index \<mapsto> scroll_state s)\<rparr>"

text \<open>The synthetic 404: \<open>load_root_error_page\<close> with a new \<open>Error(`Not found: ...`)\<close>.\<close>

definition not_found_page :: "env \<Rightarrow> url \<Rightarrow> client \<Rightarrow> (err + nav_result) \<times> client" where
  "not_found_page e u s =
     load_root_error_page e
       \<lparr>ep_status = Some 404, ep_error = Error (next_ref s) (''Not found: '' @ pathname u),
        ep_url = u, ep_routeId = None\<rparr>
       (s\<lparr>next_ref := Suc (next_ref s)\<rparr>)"

definition update_start ::
  "env \<Rightarrow> url \<Rightarrow> string list \<Rightarrow> bool \<Rightarrow> nav_opts option \<Rightarrow> url option option \<Rightarrow> client
     \<Rightarrow> nav_start \<times> client" where
  "update_start e u redirect_chain no_cache opts callback s =
     (case get_navigation_intent e u s of
        (Inl x, s1) \<Rightarrow> (NavThrew x, s1)
      | (Inr intent, s1) \<Rightarrow>
         (let s2 = s1\<lparr>token := Suc (token s1)\<rparr>;
              wait = (\<lambda>out. NavStarted \<lparr>p_url = u, p_redirect_chain = redirect_chain,
                               p_opts = opts, p_callback = callback, p_token = token s2,
                               p_load = out\<rparr>)
          in case intent of
               Some it \<Rightarrow> (case load_route e it no_cache s2 of (out, s3) \<Rightarrow> (wait out, s3))
             | None \<Rightarrow>
                 if origin u = origin (location s2) \<and> pathname u = pathname (location s2) then
                   (case not_found_page e u s2 of
                      (Inl x, s3) \<Rightarrow> (wait (Rejected x), s3)
                    | (Inr r, s3) \<Rightarrow> (wait (Resolved r), s3))
                 else (NavNative, native_navigation u s2)))"

record navigate_args =
  n_url :: url
  n_scroll :: "(int \<times> int) option"
  n_keepfocus :: bool
  n_redirect_chain :: "string list"
  n_details :: "bool option"
  n_accepted :: "client \<Rightarrow> client"
  n_blocked :: "client \<Rightarrow> client"

text \<open>
  A \<open>before_navigate\<close> observer is the function telling whether it calls \<open>cancel\<close>.
  \<open>n_details\<close> is \<open>details.replaceState\<close> (\<open>None\<close> for \<open>details: null\<close>).
\<close>

definition navigate :: "env \<Rightarrow> navigate_args \<Rightarrow> client \<Rightarrow> nav_start \<times> client" where
  "navigate e n s =
     (let from = ns_url (current s);
          should_block = list_ex (\<lambda>fn. fn from (Some (n_url n))) (before_navigate s)
      in if should_block then (NavBlocked, n_blocked n s)
         else (let normalized = (n_url n)\<lparr>pathname := normalize_path e (pathname (n_url n))\<rparr>;
                   s1 = update_scroll_positions (current_history_index s) s;
                   s2 = n_accepted n s1;
                   s3 = (if started s2
                         then s2\<lparr>navigating := Some (ns_url (current s2), normalized)\<rparr> else s2)
               in update_start e normalized (n_redirect_chain n) False
                    (Some \<lparr>no_scroll = n_scroll n, no_keepfocus = n_keepfocus n,
                           no_details = n_details n\<rparr>)
                    (Some from) s3))"

record goto_opts =
  go_noscroll :: bool
  go_replaceState :: bool
  go_keepfocus :: bool

definition default_goto_opts :: goto_opts where
  "default_goto_opts = \<lparr>go_noscroll = False, go_replaceState = False, go_keepfocus = False\<rparr>"

definition goto :: "env \<Rightarrow> url \<Rightarrow> goto_opts \<Rightarrow> string list \<Rightarrow> client \<Rightarrow> nav_start \<times> client" where
  "goto e u opts redirect_chain s =
     (if router_enabled s then
        navigate e \<lparr>n_url = u,
                    n_scroll = (if go_noscroll opts then Some (scroll_state s) else None),
                    n_keepfocus = go_keepfocus opts, n_redirect_chain = redirect_chain,
                    n_details = Some (go_replaceState opts),
                    n_accepted = (\<lambda>c. c), n_blocked = (\<lambda>c. c)\<rparr> s
      else (NavNative, native_navigation u s))"

text \<open>
  The state in which the \<open>navigate\<close> of \<open>goto\<close> calls \<open>update\<close> when no observer has
  cancelled: the scroll offset is stored under the current index and, once started, the
  \<open>navigating\<close> store is set.
\<close>

definition accepted_state :: "env \<Rightarrow> url \<Rightarrow> client \<Rightarrow> client" where
  "accepted_state e u s =
     (let s1 = update_scroll_positions (current_history_index s) s
      in if started s1
         then s1\<lparr>navigating := Some (ns_url (current s1),
                                       u\<lparr>pathname := normalize_path e (pathname u)\<rparr>)\<rparr>
         else s1)"

text \<open>\<open>history.pushState\<close> drops the forward entries and adds one; \<open>history.replaceState\<close>
  overwrites the entry the browser is at. Both set the address bar.\<close>

definition history_write :: "bool \<Rightarrow> nat \<Rightarrow> url \<Rightarrow> client \<Rightarrow> client" where
  "history_write replaceState index u s =
     (let entry = \<lparr>he_index = Some index, he_url = u\<rparr>
      in if replaceState
         then s\<lparr>history := (history s)[history_pos s := entry], location := u\<rparr>
         else s\<lparr>history := take (Suc (history_pos s)) (history s) @ [entry],
                history_pos := Suc (history_pos s), location := u\<rparr>)"

definition initialize :: "nav_result \<Rightarrow> client \<Rightarrow> client" where
  "initialize result s =
     (let s1 = s\<lparr>current := nr_state result, page_var := pr_page (nr_props result),
                 root_props := Some (nr_props result)\<rparr>;
          s2 = (if router_enabled s1
                then s1\<lparr>after_navigate_log := after_navigate_log s1 @ [(None, location s1)]\<rparr>
                else s1)
      in s2\<lparr>started := True\<rparr>)"

text \<open>
  \<open>navigation_result.props.page.url = url\<close> writes into the result object, which the
  cache may hold as well.
\<close>

definition set_page_url :: "url \<Rightarrow> nav_result \<Rightarrow> nav_result" where
  "set_page_url u r =
     (case pr_page (nr_props r) of
        None \<Rightarrow> r
      | Some pg \<Rightarrow> r\<lparr>nr_props := (nr_props r)\<lparr>pr_page := Some (pg\<lparr>pg_url := u\<rparr>)\<rparr>\<rparr>)"

definition leaf_router :: "nav_result \<Rightarrow> bool" where
  "leaf_router r =
     (case (if ns_branch (nr_state r) = [] then None else last (ns_branch (nr_state r))) of
        None \<Rightarrow> True
      | Some leaf_node \<Rightarrow> m_router (bn_module leaf_node) \<noteq> Some False)"

text \<open>
  \<open>update\<close> from \<open>updating = true\<close> to its end, in its four steps: the history entry
  (\<open>if (opts && opts.details)\<close>), the render target and \<open>current\<close>
  (\<open>if (started) ... else initialize\<close>), the scroll position, and the bookkeeping after
  \<open>await tick()\<close>.
\<close>

definition write_history :: "pending \<Rightarrow> client \<Rightarrow> client" where
  "write_history p s =
     (case p_opts p of
        None \<Rightarrow> s
      | Some opts \<Rightarrow>
         (case no_details opts of
            None \<Rightarrow> s
          | Some replaceState \<Rightarrow>
             (let index = current_history_index s + (if replaceState then 0 else 1)
              in history_write replaceState index (p_url p)
                   (s\<lparr>current_history_index := index\<rparr>))))"

definition render :: "url \<Rightarrow> nav_result \<Rightarrow> client \<Rightarrow> client" where
  "render u navigation_result s =
     (if started s then
        (let r = set_page_url u navigation_result
         in s\<lparr>current := nr_state r,
               cache := (\<lambda>k. map_option
                          (\<lambda>c. if nr_ref c = nr_ref r then set_page_url u c else c)
                          (cache s k)),
               root_props := Some (nr_props r)\<rparr>)
      else initialize navigation_result s)"

definition restore_scroll :: "env \<Rightarrow> pending \<Rightarrow> client \<Rightarrow> client" where
  "restore_scroll e p s =
     (case p_opts p of
        None \<Rightarrow> s
      | Some opts \<Rightarrow>
          if autoscroll s then
            (case no_scroll opts of
               Some xy \<Rightarrow> s\<lparr>scroll_state := xy\<rparr>
             | None \<Rightarrow>
                (case (if hash (p_url p) = [] then None
                       else element_offset e (drop 1 (hash (p_url p)))) of
                   Some xy \<Rightarrow> s\<lparr>scroll_state := xy\<rparr>
                 | None \<Rightarrow> s\<lparr>scroll_state := (0, 0)\<rparr>))
          else s)"

definition finish_update :: "pending \<Rightarrow> nav_result \<Rightarrow> client \<Rightarrow> client" where
  "finish_update p shown s =
     (let s1 = s\<lparr>load_cache_promise := None, load_cache_id := None, autoscroll := True,
                 page_var := (case pr_page (nr_props shown) of
                                Some pg \<Rightarrow> Some pg | None \<Rightarrow> page_var s),
                 router_enabled := leaf_router shown\<rparr>;
          s2 = (case p_callback p of
                  None \<Rightarrow> s1
                | Some from \<Rightarrow> s1\<lparr>after_navigate_log := after_navigate_log s1 @ [(from, p_url p)],
                                   navigating := None\<rparr>)
      in s2\<lparr>updating := False\<rparr>)"

text \<open>
  What \<open>update\<close> is waiting for after the token check: the root error page it has asked
  for (settled to an error or a result), or the answer of \<open>stores.updated.check()\<close>, in
  which case it keeps the result of its load.
\<close>

datatype awaited = ErrorPage "err + nav_result" | UpdatedCheck nav_result

text \<open>
  How a piece of \<open>update\<close> ends: the function has completed, has returned \<open>false\<close>
  (carrying the navigation that a redirect started, if any), has rejected, will never
  settle, or is waiting: for one of the two promises above, or for \<open>tick()\<close>, holding the
  result object it has rendered.
\<close>

datatype update_outcome =
    Completed | ReturnedFalse "nav_start option" | Threw err | Never
  | AwaitCheck awaited | AwaitTick nav_result

text \<open>
  From \<open>updating = true\<close> to \<open>await tick()\<close>: the history entry and the render. The result
  object carries the new \<open>page.url\<close> only when the client had started.
\<close>

definition show_result :: "pending \<Rightarrow> nav_result \<Rightarrow> client \<Rightarrow> update_outcome \<times> client" where
  "show_result p navigation_result s =
     (let s1 = write_history p (s\<lparr>updating := True\<rparr>);
          shown = (if started s1 then set_page_url (p_url p) navigation_result
                   else navigation_result)
      in (AwaitTick shown, render (p_url p) navigation_result s1))"

definition page_status :: "nav_result \<Rightarrow> nat option" where
  "page_status r = (case pr_page (nr_props r) of None \<Rightarrow> None | Some pg \<Rightarrow> pg_status pg)"

text \<open>\<open>navigation_result.props?.page?.status >= 400\<close>\<close>

definition is_error_page :: "nav_result \<Rightarrow> bool" where
  "is_error_page r = (case page_status r of Some n \<Rightarrow> 400 \<le> n | None \<Rightarrow> False)"

definition redirect_target :: "nav_result \<Rightarrow> string" where
  "redirect_target r = (case nr_redirect r of Some target \<Rightarrow> target | None \<Rightarrow> [])"

definition redirect_loop :: string where
  "redirect_loop = ''Redirect loop''"

text \<open>The page for a redirect loop: \<open>load_root_error_page\<close> with status 500 and a new
  \<open>Error('Redirect loop')\<close>.\<close>

definition redirect_loop_page :: "env \<Rightarrow> url \<Rightarrow> client \<Rightarrow> (err + nav_result) \<times> client" where
  "redirect_loop_page e u s =
     load_root_error_page e
       \<lparr>ep_status = Some 500, ep_error = Error (next_ref s) redirect_loop,
        ep_url = u, ep_routeId = None\<rparr>
       (s\<lparr>next_ref := Suc (next_ref s)\<rparr>)"

text \<open>
  The token is compared once, here. After it come \<open>invalidated.length = 0\<close> and the three
  ways on: a redirect (guarded or followed), an error page, anything else.
\<close>

definition update_resume :: "env \<Rightarrow> pending \<Rightarrow> client \<Rightarrow> update_outcome \<times> client" where
  "update_resume e p s =
     (case p_load p of
        Rejected x \<Rightarrow> (Threw x, s)
      | Pending \<Rightarrow> (Never, s)
      | Resolved navigation_result \<Rightarrow>
          if token s \<noteq> p_token p then (ReturnedFalse None, s)
          else
            (let s1 = s\<lparr>invalidated := []\<rparr>; u = p_url p
             in if truthy (nr_redirect navigation_result) then
                  (if length (p_redirect_chain p) > 10 \<or> pathname u \<in> set (p_redirect_chain p) then
                     (case redirect_loop_page e u s1 of
                        (res, s2) \<Rightarrow> (AwaitCheck (ErrorPage res), s2))
                   else if router_enabled s1 then
                     (case goto e (new_URL e (redirect_target navigation_result) u)
                             default_goto_opts (p_redirect_chain p @ [pathname u]) s1 of
                        (started_nav, s2) \<Rightarrow> (ReturnedFalse (Some started_nav), s2))
                   else
                     (Never, native_navigation
                               (new_URL e (redirect_target navigation_result) (location s1)) s1))
                else if is_error_page navigation_result
                  then (AwaitCheck (UpdatedCheck navigation_result), s1)
                else show_result p navigation_result s1))"

text \<open>
  \<open>update\<close> once the promise it awaited after the token check has settled. The token is
  not looked at again.
\<close>

definition update_continue :: "env \<Rightarrow> pending \<Rightarrow> awaited \<Rightarrow> client \<Rightarrow> update_outcome \<times> client" where
  "update_continue e p a s =
     (case a of
        ErrorPage (Inl x) \<Rightarrow> (Threw x, s)
      | ErrorPage (Inr navigation_result) \<Rightarrow> show_result p navigation_result s
      | UpdatedCheck navigation_result \<Rightarrow>
          if updated_check e then (Never, native_navigation (p_url p) s)
          else show_result p navigation_result s)"

text \<open>\<open>update\<close> after \<open>await tick()\<close>; it then completes.\<close>

definition update_finish :: "env \<Rightarrow> pending \<Rightarrow> nav_result \<Rightarrow> client \<Rightarrow> client" where
  "update_finish e p shown s = finish_update p shown (restore_scroll e p s)"

text \<open>
  The pieces of \<open>update\<close> after the load, run one after the other with nothing in between:
  the schedule of a navigation that is alone.
\<close>

definition update_settle :: "env \<Rightarrow> pending \<Rightarrow> client \<Rightarrow> update_outcome \<times> client" where
  "update_settle e p s =
     (case update_resume e p s of
        (AwaitTick shown, s1) \<Rightarrow> (Completed, update_finish e p shown s1)
      | (AwaitCheck a, s1) \<Rightarrow>
          (case update_continue e p a s1 of
             (AwaitTick shown, s2) \<Rightarrow> (Completed, update_finish e p shown s2)
           | other \<Rightarrow> other)
      | other \<Rightarrow> other)"

section \<open>The session store, timers and invalidate\<close>

text \<open>
  The closure \<open>clear\<close> of \<open>get_navigation_result_from_branch\<close>: it deletes the cache entry
  if that is still the result it was made for, and removes its subscription and timeout.
\<close>

definition run_clear :: "nat \<times> string \<times> nat \<Rightarrow> client \<Rightarrow> client" where
  "run_clear c s =
     (case c of (due, key, ref) \<Rightarrow>
        s\<lparr>cache := (if map_option nr_ref (cache s key) = Some ref
                     then (cache s)(key := None) else cache s),
          clears := removeAll c (clears s)\<rparr>)"


text \<open>
  The session store emits \<open>value\<close>. Its subscribers run in one synchronous pass
  (\<open>session_notify\<close>): the subscriber of \<open>create_client\<close>, which stores the value and
  bumps \<open>session_id\<close>, and the \<open>clear\<close> subscriptions of the cached results. The first
  subscriber also calls \<open>update\<close>; the load of that \<open>update\<close> goes on after the pass, so
  it is started after it (\<open>session_emit\<close>).
\<close>

definition session_notify :: "string \<Rightarrow> client \<Rightarrow> client" where
  "session_notify v s =
     (let s1 = s\<lparr>session_value := v, session_id := session_id s + 1\<rparr>
      in fold run_clear (clears s1) s1)"

definition session_emit :: "env \<Rightarrow> string \<Rightarrow> client \<Rightarrow> nav_start \<times> client" where
  "session_emit e v s =
     update_start e (location (session_notify v s)) [] True None None (session_notify v s)"




text \<open>
  The part of the client that a branch load cannot write: everything but the result
  cache, the armed \<open>clear\<close> closures, the reference counter and the call log.
\<close>

definition outside_load :: "client \<Rightarrow> client" where
  "outside_load s = s\<lparr>cache := Map.empty, clears := [], next_ref := 0, load_log := []\<rparr>"

text \<open>
  The state \<open>create_client\<close> sets up, for a browser at \<open>loc\<close> with no index in
  \<open>history.state\<close> and nothing stored under the scroll key; \<open>t\<close> is \<open>Date.now()\<close>.
\<close>

definition create_client :: "string \<Rightarrow> url \<Rightarrow> nat \<Rightarrow> client" where
  "create_client session loc t =
     \<lparr>cache = Map.empty, invalidated = [], load_cache_id = None, load_cache_promise = None,
      before_navigate = [], after_navigate_log = [],
      current = \<lparr>ns_url = None, ns_params = [], ns_branch = [], ns_error = None,
                 ns_stuff = root_stuff, ns_session_id = 0\<rparr>,
      started = False, autoscroll = True, updating = False, session_id = 1,
      session_value = session, router_enabled = True, current_history_index = t,
      scroll_positions = Map.empty, page_var = None, token = 0, invalidating = False,
      navigating = None, root_props = None, location = loc,
      history = [\<lparr>he_index = Some t, he_url = loc\<rparr>], history_pos = 0,
      scroll_state = (0, 0), now = t, clears = [], next_ref = 1, load_log = []\<rparr>"

section \<open>A small application\<close>

text \<open>
  Routes and modules on which the theorems below are run: \<open>/posts/[id]\<close> whose page reads
  \<open>params.id\<close> and declares \<open>cache: { maxage: 5 }\<close>; \<open>/about\<close> under a layout that reads \<open>url\<close>
  and contributes stuff, with a page that reads nothing; \<open>/broken\<close> whose \<open>load\<close> returns
  nothing; \<open>/a\<close> and \<open>/b\<close>, which redirect to each other.
\<close>

definition ex_url :: "string \<Rightarrow> string \<Rightarrow> url" where
  "ex_url p q = \<lparr>origin = ''http://localhost'', pathname = p, search = q, hash = []\<rparr>"

definition plain :: loaded where
  "plain = \<lparr>ld_status = None, ld_error = None, ld_redirect = None, ld_props = None,
            ld_stuff = None, ld_dependencies = None, ld_cache = None\<rparr>"

definition no_reads :: "err + loaded option \<Rightarrow> load_output" where
  "no_reads r = \<lparr>lo_reads_params = [], lo_reads_url = False, lo_reads_session = False,
                 lo_reads_stuff = False, lo_fetched = [], lo_result = r\<rparr>"

definition layout_module :: component where
  "layout_module = \<lparr>m_ref = 1, m_load = None, m_router = None\<rparr>"

definition error_module :: component where
  "error_module = \<lparr>m_ref = 2, m_load = None, m_router = None\<rparr>"

definition post_load :: "load_input \<Rightarrow> load_output" where
  "post_load inp =
     (no_reads (Inr (Some (plain\<lparr>ld_props := Some [(''title'',
                                        (case map_of (li_params inp) ''id'' of
                                           Some v \<Rightarrow> v | None \<Rightarrow> []))],
                                   ld_cache := Some 5\<rparr>))))\<lparr>lo_reads_params := [''id'']\<rparr>"

definition post_module :: component where
  "post_module = \<lparr>m_ref = 3, m_load = Some post_load, m_router = None\<rparr>"

definition theme_load :: "load_input \<Rightarrow> load_output" where
  "theme_load inp =
     (no_reads (Inr (Some (plain\<lparr>ld_stuff := Some (Stuff 100 [(''theme'', ''dark'')])\<rparr>))))
       \<lparr>lo_reads_url := True\<rparr>"

definition theme_layout :: component where
  "theme_layout = \<lparr>m_ref = 4, m_load = Some theme_load, m_router = None\<rparr>"

definition about_load :: "load_input \<Rightarrow> load_output" where
  "about_load inp = no_reads (Inr (Some (plain\<lparr>ld_props := Some [(''text'', ''hello'')]\<rparr>)))"

definition about_module :: component where
  "about_module = \<lparr>m_ref = 5, m_load = Some about_load, m_router = None\<rparr>"

definition broken_load :: "load_input \<Rightarrow> load_output" where
  "broken_load inp = no_reads (Inr None)"

definition broken_module :: component where
  "broken_module = \<lparr>m_ref = 6, m_load = Some broken_load, m_router = None\<rparr>"

definition redirect_to :: "string \<Rightarrow> load_input \<Rightarrow> load_output" where
  "redirect_to target inp =
     no_reads (Inr (Some (plain\<lparr>ld_status := Some 302, ld_redirect := Some target\<rparr>)))"

definition a_module :: component where
  "a_module = \<lparr>m_ref = 7, m_load = Some (redirect_to ''/b''), m_router = None\<rparr>"

definition b_module :: component where
  "b_module = \<lparr>m_ref = 8, m_load = Some (redirect_to ''/a''), m_router = None\<rparr>"

definition static_route :: "string \<Rightarrow> component \<Rightarrow> component \<Rightarrow> route" where
  "static_route path layout leaf =
     \<lparr>r_id = path, r_exec = (\<lambda>p. if p = path then Some [] else None),
      r_a = [Some (Inr layout), Some (Inr leaf)], r_b = [Some (Inr error_module)],
      r_has_shadow = False\<rparr>"

definition posts_route :: route where
  "posts_route =
     \<lparr>r_id = ''posts/[id]'',
      r_exec = (\<lambda>p. if take 7 p = ''/posts/'' \<and> 7 < length p
                     then Some [(''id'', drop 7 p)] else None),
      r_a = [Some (Inr layout_module), Some (Inr post_module)],
      r_b = [Some (Inr error_module)], r_has_shadow = False\<rparr>"

text \<open>
  \<open>new_URL\<close> here resolves a site-absolute path without query or fragment, which is all
  the example passes to it; \<open>decodeURI\<close> rejects the lone \<open>%\<close> and leaves other paths as
  they are.
\<close>

definition ex_env :: env where
  "ex_env =
     \<lparr>base = [], normalize_path = (\<lambda>p. p),
      decodeURI = (\<lambda>p. if p = ''/%'' then None else Some p),
      routes = [posts_route, static_route ''/about'' theme_layout about_module,
                static_route ''/broken'' layout_module broken_module,
                static_route ''/a'' layout_module a_module,
                static_route ''/b'' layout_module b_module],
      default_layout = Inr layout_module, default_error = Inr error_module,
      normalize = Inr,
      new_URL = (\<lambda>p b. \<lparr>origin = origin b, pathname = p, search = [], hash = []\<rparr>),
      native_fetch = (\<lambda>r. Inl (Error 0 ''Failed to fetch'')),
      updated_check = False, element_offset = (\<lambda>i. None)\<rparr>"

definition ex_client :: client where
  "ex_client = create_client ''guest'' (ex_url ''/'' []) 1000"

definition posts_intent :: "string \<Rightarrow> string \<Rightarrow> intent" where
  "posts_intent n q =
     \<lparr>i_id = ''/posts/'' @ n @ q, i_url = ex_url (''/posts/'' @ n) q,
      i_params = [(''id'', n)], i_route = posts_route\<rparr>"

definition about_intent :: "string \<Rightarrow> intent" where
  "about_intent q =
     \<lparr>i_id = ''/about'' @ q, i_url = ex_url ''/about'' q, i_params = [],
      i_route = static_route ''/about'' theme_layout about_module\<rparr>"

definition ex_prefetched :: client where
  "ex_prefetched = snd (prefetch ex_env (ex_url ''/posts/1'' []) ex_client)"

text \<open>The navigation a call has left waiting, if it has.\<close>

definition started_pending :: "nav_start \<times> client \<Rightarrow> pending option" where
  "started_pending x = (case fst x of NavStarted p \<Rightarrow> Some p | _ \<Rightarrow> None)"

text \<open>Projections for a started navigation and a resolved load.\<close>

definition the_pending :: "nav_start \<times> client \<Rightarrow> pending" where
  "the_pending x = (case fst x of NavStarted p \<Rightarrow> p)"

definition the_result :: "pending \<Rightarrow> nav_result" where
  "the_result p = (case p_load p of Resolved r \<Rightarrow> r)"



text \<open>A visit of \<open>/posts/1\<close>, committed, and a second \<open>goto\<close> to it with \<open>replaceState\<close>.\<close>

definition ex_visit :: "nav_start \<times> client" where
  "ex_visit = goto ex_env (ex_url ''/posts/1'' []) default_goto_opts [] ex_client"

definition ex_committed :: client where
  "ex_committed = snd (update_settle ex_env (the_pending ex_visit) (snd ex_visit))"

definition ex_again :: "nav_start \<times> client" where
  "ex_again = goto ex_env (ex_url ''/posts/1'' [])
                (default_goto_opts\<lparr>go_replaceState := True\<rparr>) [] ex_committed"

definition the_followed :: "update_outcome \<times> client \<Rightarrow> pending" where
  "the_followed x = (case fst x of ReturnedFalse (Some (NavStarted p)) \<Rightarrow> p)"


































text \<open>
  The loop \<open>/a\<close> to \<open>/b\<close> to \<open>/a\<close> in an application with environment \<open>e\<close>: \<open>goto('/a')\<close>,
  its \<open>update\<close> resumed (it follows the redirect to \<open>/b\<close>), and the \<open>update\<close> of that
  \<open>goto\<close> resumed (it follows the redirect to \<open>/a\<close>); and a navigation that arrives with
  a chain of eleven pathnames.
\<close>

definition loop_first :: "env \<Rightarrow> nav_start \<times> client" where
  "loop_first e = goto e (ex_url ''/a'' []) default_goto_opts [] ex_client"

definition loop_second :: "env \<Rightarrow> update_outcome \<times> client" where
  "loop_second e = update_resume e (the_pending (loop_first e)) (snd (loop_first e))"

definition loop_third :: "env \<Rightarrow> update_outcome \<times> client" where
  "loop_third e = update_resume e (the_followed (loop_second e)) (snd (loop_second e))"

definition ex_eleven :: pending where
  "ex_eleven = (the_followed (loop_second ex_env))
     \<lparr>p_redirect_chain := [''/1'', ''/2'', ''/3'', ''/4'', ''/5'', ''/6'', ''/7'', ''/8'', ''/9'',
                           ''/10'', ''/11'']\<rparr>"

text \<open>The same application with a root layout whose \<open>load\<close> throws.\<close>

definition down_layout :: component where
  "down_layout = \<lparr>m_ref = 9, m_load = Some (\<lambda>inp. no_reads (Inl (Error 77 ''layout down''))),
                  m_router = None\<rparr>"

definition down_env :: env where
  "down_env = ex_env\<lparr>default_layout := Inr down_layout\<rparr>"




































section \<open>What a branch load leaves untouched\<close>

lemma outside_load_upd [simp]:
  "outside_load (s\<lparr>next_ref := n\<rparr>) = outside_load s"
  "outside_load (s\<lparr>load_log := l\<rparr>) = outside_load s"
  "outside_load (s\<lparr>cache := c\<rparr>) = outside_load s"
  "outside_load (s\<lparr>clears := cl\<rparr>) = outside_load s"
  by (simp_all add: outside_load_def)

lemma outside_load_fields:
  assumes "outside_load s' = outside_load s"
  shows "token s' = token s" and "invalidated s' = invalidated s" and "current s' = current s"
    and "history s' = history s" and "history_pos s' = history_pos s"
    and "location s' = location s"
    and "current_history_index s' = current_history_index s"
    and "scroll_positions s' = scroll_positions s"
    and "root_props s' = root_props s" and "load_cache_id s' = load_cache_id s"
    and "load_cache_promise s' = load_cache_promise s" and "session_id s' = session_id s"
    and "router_enabled s' = router_enabled s" and "started s' = started s"
    and "now s' = now s" and "scroll_state s' = scroll_state s"
    and "before_navigate s' = before_navigate s" and "session_value s' = session_value s"
    and "page_var s' = page_var s"
proof -
  have a: "f (outside_load s') = f (outside_load s)" for f :: "client \<Rightarrow> 'a"
    using assms by simp
  show "token s' = token s" using a[of token] by (simp add: outside_load_def)
  show "invalidated s' = invalidated s" using a[of invalidated] by (simp add: outside_load_def)
  show "current s' = current s" using a[of current] by (simp add: outside_load_def)
  show "history s' = history s" using a[of history] by (simp add: outside_load_def)
  show "history_pos s' = history_pos s" using a[of history_pos] by (simp add: outside_load_def)
  show "location s' = location s" using a[of location] by (simp add: outside_load_def)
  show "current_history_index s' = current_history_index s"
    using a[of current_history_index] by (simp add: outside_load_def)
  show "scroll_positions s' = scroll_positions s"
    using a[of scroll_positions] by (simp add: outside_load_def)
  show "root_props s' = root_props s" using a[of root_props] by (simp add: outside_load_def)
  show "load_cache_id s' = load_cache_id s" using a[of load_cache_id] by (simp add: outside_load_def)
  show "load_cache_promise s' = load_cache_promise s"
    using a[of load_cache_promise] by (simp add: outside_load_def)
  show "session_id s' = session_id s" using a[of session_id] by (simp add: outside_load_def)
  show "router_enabled s' = router_enabled s" using a[of router_enabled] by (simp add: outside_load_def)
  show "started s' = started s" using a[of started] by (simp add: outside_load_def)
  show "now s' = now s" using a[of now] by (simp add: outside_load_def)
  show "scroll_state s' = scroll_state s" using a[of scroll_state] by (simp add: outside_load_def)
  show "before_navigate s' = before_navigate s" using a[of before_navigate] by (simp add: outside_load_def)
  show "session_value s' = session_value s" using a[of session_value] by (simp add: outside_load_def)
  show "page_var s' = page_var s" using a[of page_var] by (simp add: outside_load_def)
qed

lemma load_node_frame: "load_node e opts s = (r, s') \<Longrightarrow> outside_load s' = outside_load s"
  by (auto simp: load_node_def Let_def split: option.splits sum.splits)

lemma gnrfb_frame:
  "get_navigation_result_from_branch g s = (r, s') \<Longrightarrow> outside_load s' = outside_load s"
  by (auto simp: get_navigation_result_from_branch_def Let_def split: option.splits)

lemma fresh_stuff_frame: "fresh_stuff d s = (st, s') \<Longrightarrow> outside_load s' = outside_load s"
  by (auto simp: fresh_stuff_def)

lemma merge_stuff_frame: "merge_stuff st c s = (st', s') \<Longrightarrow> outside_load s' = outside_load s"
  by (auto simp: merge_stuff_def split: option.splits dest: fresh_stuff_frame)

lemma load_root_error_page_frame:
  "load_root_error_page e ep s = (r, s') \<Longrightarrow> outside_load s' = outside_load s"
  unfolding load_root_error_page_def
  by (auto split: sum.splits prod.splits option.splits
      dest!: load_node_frame gnrfb_frame fresh_stuff_frame)

lemma not_found_page_frame:
  "not_found_page e u s = (r, s') \<Longrightarrow> outside_load s' = outside_load s"
  unfolding not_found_page_def by (drule load_root_error_page_frame) simp

lemma redirect_loop_page_frame:
  "redirect_loop_page e u s = (r, s') \<Longrightarrow> outside_load s' = outside_load s"
  unfolding redirect_loop_page_def by (drule load_root_error_page_frame) simp

lemma load_changed_frame:
  "load_changed e it m sh props st sc status error s = (r, s') \<Longrightarrow> outside_load s' = outside_load s"
  unfolding load_changed_def caught_def redirect_result_def Let_def
  by (auto split: sum.splits prod.splits option.splits if_splits dest!: load_node_frame)

lemma load_position_frame:
  "load_position e it ch i ld st sc status s = (r, s') \<Longrightarrow> outside_load s' = outside_load s"
  unfolding load_position_def caught_def redirect_result_def error_of_json_def Let_def
  by (auto split: sum.splits prod.splits option.splits if_splits bool.splits dest!: load_changed_frame)

lemma recover_frame:
  "recover e it i branch st status error s = (r, s') \<Longrightarrow> outside_load s' = outside_load s"
proof (induction i arbitrary: s)
  case 0
  then show ?case
    by (auto split: sum.splits prod.splits dest!: load_root_error_page_frame)
next
  case (Suc i)
  show ?case using Suc.prems
    by (auto split: sum.splits prod.splits option.splits if_splits
        dest!: load_node_frame merge_stuff_frame gnrfb_frame Suc.IH)
qed

lemma load_loop_frame:
  "load_loop e it ch as i branch st sc status s = (r, s') \<Longrightarrow> outside_load s' = outside_load s"
proof (induction e it ch as i branch st sc status s rule: load_loop.induct)
  case (1 e it ch i branch st stuff_changed status s)
  then show ?case by (auto split: prod.splits dest!: gnrfb_frame)
next
  case (2 e it ch rest i branch st stuff_changed status s)
  then show ?case by simp
next
  case (3 e it ch ld rest i branch st stuff_changed status s)
  show ?case
  proof (cases "load_position e it ch i ld st stuff_changed status s")
    case (Pair pr s1)
    then have f1: "outside_load s1 = outside_load s" by (rule load_position_frame)
    show ?thesis
    proof (cases pr)
      case (Return r0)
      with Pair "3.prems" f1 show ?thesis by simp
    next
      case (Loaded node status' error' sc')
      show ?thesis
      proof (cases error')
        case (Some x)
        with Pair Loaded "3.prems" have "recover e it i branch st status' x s1 = (r, s')" by simp
        then show ?thesis using f1 recover_frame by metis
      next
        case None
        obtain st' s2 where m: "merge_stuff st (case node of None \<Rightarrow> None | Some n \<Rightarrow> loaded_stuff n) s1 = (st', s2)"
          by (cases "merge_stuff st (case node of None \<Rightarrow> None | Some n \<Rightarrow> loaded_stuff n) s1")
        then have f2: "outside_load s2 = outside_load s1" by (rule merge_stuff_frame)
        from Pair Loaded None m "3.prems"
        have "load_loop e it ch rest (Suc i) (branch @ [node]) st' sc' status' s2 = (r, s')" by simp
        then have "outside_load s' = outside_load s2"
          using "3.IH"[OF Pair[symmetric] Loaded None m[symmetric]] by simp
        then show ?thesis using f1 f2 by simp
      qed
    qed
  qed
qed

lemma load_route_frame:
  "load_route e it nc s = (r, s') \<Longrightarrow> outside_load s' = outside_load s"
  unfolding load_route_def
  by (auto split: option.splits if_splits dest!: load_loop_frame)

lemma get_navigation_intent_frame:
  "get_navigation_intent e u s = (r, s') \<Longrightarrow> outside_load s' = outside_load s"
  unfolding get_navigation_intent_def Let_def
  by (auto split: option.splits if_splits prod.splits)


section \<open>Which loaders a position calls\<close>




lemma load_node_module: "load_node e opts s = (Inr n, s') \<Longrightarrow> bn_module n = o_module opts"
  by (auto simp: load_node_def Let_def split: option.splits sum.splits)

lemma gnrfb_result:
  assumes "get_navigation_result_from_branch g s = (r, s')"
  shows "nr_state r = \<lparr>ns_url = Some (g_url g), ns_params = g_params g, ns_branch = g_branch g,
                        ns_error = g_error g, ns_stuff = g_stuff g, ns_session_id = session_id s\<rparr>"
    and "pr_page (nr_props r)
           = (if page_changed (current s) (g_url g) (g_error g) (g_stuff g)
              then Some \<lparr>pg_error = g_error g, pg_params = g_params g, pg_routeId = g_routeId g,
                         pg_status = g_status g, pg_stuff = g_stuff g, pg_url = g_url g\<rparr>
              else None)"
    and "nr_redirect r = node_redirect (find has_redirect (List.map_filter id (g_branch g)))"
  using assms
  by (auto simp: get_navigation_result_from_branch_def Let_def split: option.splits)

section \<open>The loop, position by position\<close>





lemma loop_at_le:
  "loop_at e it ch s i = Some (v, si) \<Longrightarrow> i \<le> length (r_a (i_route it))"
  by (cases i) (auto split: option.splits if_splits)






section \<open>What starting a navigation changes\<close>

text \<open>The four ways through \<open>update_start\<close>.\<close>

lemma update_start_cases:
  assumes st: "update_start e u c n opts k s = (r, s')"
  obtains (threw) x where "get_navigation_intent e u s = (Inl x, s')" "r = NavThrew x"
  | (load) it s1 out where "get_navigation_intent e u s = (Inr (Some it), s1)"
      "load_route e it n (s1\<lparr>token := Suc (token s1)\<rparr>) = (out, s')"
      "r = NavStarted \<lparr>p_url = u, p_redirect_chain = c, p_opts = opts, p_callback = k,
                        p_token = Suc (token s1), p_load = out\<rparr>"
  | (not_found) s1 res out where "get_navigation_intent e u s = (Inr None, s1)"
      "not_found_page e u (s1\<lparr>token := Suc (token s1)\<rparr>) = (res, s')"
      "r = NavStarted \<lparr>p_url = u, p_redirect_chain = c, p_opts = opts, p_callback = k,
                        p_token = Suc (token s1), p_load = out\<rparr>"
  | (native) s1 where "get_navigation_intent e u s = (Inr None, s1)"
      "s' = (s1\<lparr>token := Suc (token s1), location := u\<rparr>)" "r = NavNative"
proof -
  obtain gi s1 where g: "get_navigation_intent e u s = (gi, s1)"
    by (cases "get_navigation_intent e u s")
  show thesis
  proof (cases gi)
    case (Inl x)
    have "r = NavThrew x" "s' = s1" using st by (simp_all add: update_start_def g Inl)
    then show ?thesis using threw g Inl by simp
  next
    case (Inr intent)
    show ?thesis
    proof (cases intent)
      case (Some it)
      obtain out s3 where l: "load_route e it n (s1\<lparr>token := Suc (token s1)\<rparr>) = (out, s3)"
        by (cases "load_route e it n (s1\<lparr>token := Suc (token s1)\<rparr>)")
      have "s' = s3" "r = NavStarted \<lparr>p_url = u, p_redirect_chain = c, p_opts = opts, p_callback = k,
                        p_token = Suc (token s1), p_load = out\<rparr>"
        using st by (auto simp add: update_start_def g Inr Some l Let_def)
      then show ?thesis using load[of it s1 out] g Inr Some l by simp
    next
      case None
      show ?thesis
      proof (cases "origin u = origin (location s1) \<and> pathname u = pathname (location s1)")
        case True
        obtain res s3 where l: "not_found_page e u (s1\<lparr>token := Suc (token s1)\<rparr>) = (res, s3)"
          by (cases "not_found_page e u (s1\<lparr>token := Suc (token s1)\<rparr>)")
        have "s' = s3 \<and> (\<exists>out. r = NavStarted \<lparr>p_url = u, p_redirect_chain = c, p_opts = opts,
                        p_callback = k, p_token = Suc (token s1), p_load = out\<rparr>)"
          using st by (cases res) (auto simp add: update_start_def g Inr None l Let_def if_P[OF True])
        then show ?thesis using not_found[of s1 res] g Inr None l by auto
      next
        case False
        have "r = NavNative" "s' = s1\<lparr>token := Suc (token s1), location := u\<rparr>"
          using st by (simp_all add: update_start_def g Inr None Let_def if_not_P[OF False] native_navigation_def)
        then show ?thesis using native[of s1] g Inr None by simp
      qed
    qed
  qed
qed


lemma update_start_token:
  assumes st: "update_start e u c n opts k s = (r, s')"
  shows "token s' = (case r of NavThrew x \<Rightarrow> token s | _ \<Rightarrow> Suc (token s))
        \<and> (\<forall>p. r = NavStarted p \<longrightarrow> p_token p = Suc (token s))"
  using st
proof (cases rule: update_start_cases)
  case (threw x)
  have "token s' = token s"
    using outside_load_fields(1)[OF get_navigation_intent_frame[OF threw(1)]] .
  then show ?thesis using threw(2) by simp
next
  case (load it s1 out)
  have "token s1 = token s"
    using outside_load_fields(1)[OF get_navigation_intent_frame[OF load(1)]] .
  moreover have "token s' = Suc (token s1)"
    using outside_load_fields(1)[OF load_route_frame[OF load(2)]] by simp
  ultimately show ?thesis using load(3) by simp
next
  case (not_found s1 res out)
  have "token s1 = token s"
    using outside_load_fields(1)[OF get_navigation_intent_frame[OF not_found(1)]] .
  moreover have "token s' = Suc (token s1)"
    using outside_load_fields(1)[OF not_found_page_frame[OF not_found(2)]] by simp
  ultimately show ?thesis using not_found(3) by simp
next
  case (native s1)
  have "token s1 = token s"
    using outside_load_fields(1)[OF get_navigation_intent_frame[OF native(1)]] .
  then show ?thesis using native by simp
qed

text \<open>
  A field that a branch load cannot write, and that is neither the token nor the address
  bar, is the same after \<open>update_start\<close>.
\<close>

lemma update_start_preserves:
  fixes f :: "client \<Rightarrow> 'a"
  assumes st: "update_start e u c n opts k s = (r, s')"
    and fr: "\<And>a b. outside_load a = outside_load b \<Longrightarrow> f a = f b"
    and tk: "\<And>a t. f (a\<lparr>token := t\<rparr>) = f a"
    and lc: "\<And>a l. f (a\<lparr>location := l\<rparr>) = f a"
  shows "f s' = f s"
  using st
proof (cases rule: update_start_cases)
  case (threw x)
  show ?thesis by (rule fr) (rule get_navigation_intent_frame[OF threw(1)])
next
  case (load it s1 out)
  have "f s' = f (s1\<lparr>token := Suc (token s1)\<rparr>)"
    by (rule fr) (rule load_route_frame[OF load(2)])
  also have "\<dots> = f s1" by (rule tk)
  also have "\<dots> = f s" by (rule fr) (rule get_navigation_intent_frame[OF load(1)])
  finally show ?thesis .
next
  case (not_found s1 res out)
  have "f s' = f (s1\<lparr>token := Suc (token s1)\<rparr>)"
    by (rule fr) (rule not_found_page_frame[OF not_found(2)])
  also have "\<dots> = f s1" by (rule tk)
  also have "\<dots> = f s" by (rule fr) (rule get_navigation_intent_frame[OF not_found(1)])
  finally show ?thesis .
next
  case (native s1)
  have "f s' = f (s1\<lparr>token := Suc (token s1)\<rparr>)" using native(2) lc by simp
  also have "\<dots> = f s1" by (rule tk)
  also have "\<dots> = f s" by (rule fr) (rule get_navigation_intent_frame[OF native(1)])
  finally show ?thesis .
qed


lemma update_start_index:
  assumes "update_start e u c n opts k s = (r, s')"
  shows "current_history_index s' = current_history_index s"
  using update_start_preserves[where f = current_history_index, OF assms outside_load_fields(7)] by simp

lemma update_start_scroll:
  assumes "update_start e u c n opts k s = (r, s')"
  shows "scroll_positions s' = scroll_positions s"
  using update_start_preserves[where f = scroll_positions, OF assms outside_load_fields(8)] by simp

lemma update_start_history:
  assumes "update_start e u c n opts k s = (r, s')"
  shows "history s' = history s"
  using update_start_preserves[where f = history, OF assms outside_load_fields(4)] by simp

lemma update_start_history_pos:
  assumes "update_start e u c n opts k s = (r, s')"
  shows "history_pos s' = history_pos s"
  using update_start_preserves[where f = history_pos, OF assms outside_load_fields(5)] by simp

lemma update_start_current:
  assumes "update_start e u c n opts k s = (r, s')"
  shows "current s' = current s"
  using update_start_preserves[where f = current, OF assms outside_load_fields(3)] by simp

lemma update_start_root_props:
  assumes "update_start e u c n opts k s = (r, s')"
  shows "root_props s' = root_props s"
  using update_start_preserves[where f = root_props, OF assms outside_load_fields(9)] by simp


text \<open>The ways through \<open>goto\<close>.\<close>

lemma goto_cases:
  assumes g: "goto e u opts c s = (r, s')"
  obtains (native) "\<not> router_enabled s" "r = NavNative" "s' = s\<lparr>location := u\<rparr>"
  | (blocked) "router_enabled s" "r = NavBlocked" "s' = s"
  | (started) nopts where "router_enabled s"
      "update_start e (u\<lparr>pathname := normalize_path e (pathname u)\<rparr>) c False
         (Some nopts) (Some (ns_url (current s))) (accepted_state e u s) = (r, s')"
      "no_details nopts = Some (go_replaceState opts)"
proof (cases "router_enabled s")
  case False
  have "r = NavNative \<and> s' = s\<lparr>location := u\<rparr>"
    using g False by (simp add: goto_def native_navigation_def)
  then show ?thesis using native False by blast
next
  case True
  show ?thesis
  proof (cases "list_ex (\<lambda>fn. fn (ns_url (current s)) (Some u)) (before_navigate s)")
    case b: True
    have "r = NavBlocked \<and> s' = s"
      using g True b by (simp add: goto_def navigate_def)
    then show ?thesis using blocked True by blast
  next
    case b: False
    have "update_start e (u\<lparr>pathname := normalize_path e (pathname u)\<rparr>) c False
         (Some \<lparr>no_scroll = (if go_noscroll opts then Some (scroll_state s) else None),
                no_keepfocus = go_keepfocus opts, no_details = Some (go_replaceState opts)\<rparr>)
         (Some (ns_url (current s))) (accepted_state e u s) = (r, s')"
      using g True b
      by (simp add: goto_def navigate_def accepted_state_def Let_def update_scroll_positions_def)
    then show ?thesis by (rule started[OF True]) simp
  qed
qed

lemma accepted_state_fields:
  "token (accepted_state e u s) = token s"
  "invalidated (accepted_state e u s) = invalidated s"
  "current_history_index (accepted_state e u s) = current_history_index s"
  "history (accepted_state e u s) = history s"
  "history_pos (accepted_state e u s) = history_pos s"
  "current (accepted_state e u s) = current s"
  "root_props (accepted_state e u s) = root_props s"
  "scroll_positions (accepted_state e u s)
     = (scroll_positions s)(current_history_index s \<mapsto> scroll_state s)"
  by (simp_all add: accepted_state_def update_scroll_positions_def Let_def)

lemma goto_token_mono:
  assumes "goto e u opts c s = (r, s')"
  shows "token s \<le> token s'"
  using assms
proof (cases rule: goto_cases)
  case (started nopts)
  then show ?thesis
    using update_start_token[OF started(2)] by (cases r) (simp_all add: accepted_state_fields)
qed simp_all


lemma goto_index:
  assumes "goto e u opts c s = (r, s')"
  shows "current_history_index s' = current_history_index s"
  using assms
proof (cases rule: goto_cases)
  case (started nopts)
  then show ?thesis
    using update_start_index[OF started(2)] by (simp add: accepted_state_fields)
qed simp_all

lemma goto_history:
  assumes "goto e u opts c s = (r, s')"
  shows "history s' = history s \<and> history_pos s' = history_pos s"
  using assms
proof (cases rule: goto_cases)
  case (started nopts)
  then show ?thesis
    using update_start_history[OF started(2)] update_start_history_pos[OF started(2)]
    by (simp add: accepted_state_fields)
qed simp_all

lemma goto_current:
  assumes "goto e u opts c s = (r, s')"
  shows "current s' = current s \<and> root_props s' = root_props s"
  using assms
proof (cases rule: goto_cases)
  case (started nopts)
  then show ?thesis
    using update_start_current[OF started(2)] update_start_root_props[OF started(2)]
    by (simp add: accepted_state_fields)
qed simp_all

lemma goto_scroll:
  assumes "goto e u opts c s = (r, s')"
  shows "scroll_positions s' = scroll_positions s
         \<or> scroll_positions s' = (scroll_positions s)(current_history_index s \<mapsto> scroll_state s)"
  using assms
proof (cases rule: goto_cases)
  case (started nopts)
  then show ?thesis
    using update_start_scroll[OF started(2)] by (simp add: accepted_state_fields)
qed simp_all

text \<open>The ways through \<open>update_resume\<close>.\<close>

lemma update_resume_cases:
  assumes u: "update_resume e p s = (r, s')"
  obtains (rejected) x where "p_load p = Rejected x" "r = Threw x" "s' = s"
  | (never) "p_load p = Pending" "r = Never" "s' = s"
  | (stale) nr where "p_load p = Resolved nr" "token s \<noteq> p_token p"
      "r = ReturnedFalse None" "s' = s"
  | (loop) nr res where "p_load p = Resolved nr" "token s = p_token p"
      "truthy (nr_redirect nr)"
      "length (p_redirect_chain p) > 10 \<or> pathname (p_url p) \<in> set (p_redirect_chain p)"
      "redirect_loop_page e (p_url p) (s\<lparr>invalidated := []\<rparr>) = (res, s')"
      "r = AwaitCheck (ErrorPage res)"
  | (follow) nr started_nav where "p_load p = Resolved nr" "token s = p_token p"
      "truthy (nr_redirect nr)"
      "\<not> (length (p_redirect_chain p) > 10 \<or> pathname (p_url p) \<in> set (p_redirect_chain p))"
      "goto e (new_URL e (redirect_target nr) (p_url p)) default_goto_opts
         (p_redirect_chain p @ [pathname (p_url p)]) (s\<lparr>invalidated := []\<rparr>) = (started_nav, s')"
      "r = ReturnedFalse (Some started_nav)"
  | (leave) nr l where "p_load p = Resolved nr" "token s = p_token p"
      "r = Never" "s' = s\<lparr>invalidated := [], location := l\<rparr>"
  | (check) nr where "p_load p = Resolved nr" "token s = p_token p"
      "\<not> truthy (nr_redirect nr)" "is_error_page nr"
      "r = AwaitCheck (UpdatedCheck nr)" "s' = s\<lparr>invalidated := []\<rparr>"
  | (shown) nr where "p_load p = Resolved nr" "token s = p_token p"
      "\<not> truthy (nr_redirect nr)" "\<not> is_error_page nr"
      "show_result p nr (s\<lparr>invalidated := []\<rparr>) = (r, s')"
proof (cases "p_load p")
  case (Rejected x)
  have "r = Threw x \<and> s' = s" using u Rejected by (simp add: update_resume_def)
  then show ?thesis using rejected Rejected by blast
next
  case Pending
  have "r = Never \<and> s' = s" using u Pending by (simp add: update_resume_def)
  then show ?thesis using never Pending by blast
next
  case (Resolved nr)
  show ?thesis
  proof (cases "token s = p_token p")
    case False
    have "r = ReturnedFalse None \<and> s' = s"
      using u Resolved False by (simp add: update_resume_def)
    then show ?thesis using stale[OF Resolved False] by blast
  next
    case tk: True
    show ?thesis
    proof (cases "truthy (nr_redirect nr)")
      case rd: True
      show ?thesis
      proof (cases "length (p_redirect_chain p) > 10 \<or> pathname (p_url p) \<in> set (p_redirect_chain p)")
        case lp: True
        obtain res s2 where l: "redirect_loop_page e (p_url p) (s\<lparr>invalidated := []\<rparr>) = (res, s2)"
          by (cases "redirect_loop_page e (p_url p) (s\<lparr>invalidated := []\<rparr>)")
        have "r = AwaitCheck (ErrorPage res)" "s' = s2"
          using u by (simp_all add: update_resume_def Resolved tk rd Let_def if_P[OF lp] l)
        then show ?thesis using loop[OF Resolved tk rd lp] l by blast
      next
        case lp: False
        show ?thesis
        proof (cases "router_enabled s")
          case True
          obtain sn s2 where l: "goto e (new_URL e (redirect_target nr) (p_url p)) default_goto_opts
               (p_redirect_chain p @ [pathname (p_url p)]) (s\<lparr>invalidated := []\<rparr>) = (sn, s2)"
            by (cases "goto e (new_URL e (redirect_target nr) (p_url p)) default_goto_opts
               (p_redirect_chain p @ [pathname (p_url p)]) (s\<lparr>invalidated := []\<rparr>)")
          have "r = ReturnedFalse (Some sn)" "s' = s2"
            using u by (simp_all add: update_resume_def Resolved tk rd Let_def if_not_P[OF lp] l True)
          then show ?thesis using follow[OF Resolved tk rd lp] l by blast
        next
          case False
          have "r = Never"
            "s' = s\<lparr>invalidated := [], location := new_URL e (redirect_target nr) (location s)\<rparr>"
            using u by (simp_all add: update_resume_def Resolved tk rd Let_def if_not_P[OF lp] False
                native_navigation_def)
          then show ?thesis using leave[OF Resolved tk] by blast
        qed
      qed
    next
      case rd: False
      show ?thesis
      proof (cases "is_error_page nr")
        case True
        have "r = AwaitCheck (UpdatedCheck nr)" "s' = s\<lparr>invalidated := []\<rparr>"
          using u by (simp_all add: update_resume_def Resolved tk rd Let_def True)
        then show ?thesis using check[OF Resolved tk rd True] by blast
      next
        case False
        have "show_result p nr (s\<lparr>invalidated := []\<rparr>) = (r, s')"
          using u by (simp add: update_resume_def Resolved tk rd Let_def False)
        then show ?thesis using shown[OF Resolved tk rd False] by blast
      qed
    qed
  qed
qed

text \<open>The ways through \<open>update_continue\<close>.\<close>

lemma update_continue_cases:
  assumes u: "update_continue e p a s = (r, s')"
  obtains (threw) x where "a = ErrorPage (Inl x)" "r = Threw x" "s' = s"
  | (left) nr where "a = UpdatedCheck nr" "updated_check e" "r = Never"
      "s' = s\<lparr>location := p_url p\<rparr>"
  | (shown) nr where "a = ErrorPage (Inr nr) \<or> a = UpdatedCheck nr \<and> \<not> updated_check e"
      "show_result p nr s = (r, s')"
proof (cases a)
  case (ErrorPage res)
  show ?thesis
  proof (cases res)
    case (Inl x)
    have "r = Threw x \<and> s' = s" using u ErrorPage Inl by (simp add: update_continue_def)
    then show ?thesis using threw ErrorPage Inl by blast
  next
    case (Inr nr)
    have "show_result p nr s = (r, s')" using u ErrorPage Inr by (simp add: update_continue_def)
    then show ?thesis using shown[of nr] ErrorPage Inr by blast
  qed
next
  case (UpdatedCheck nr)
  show ?thesis
  proof (cases "updated_check e")
    case True
    have "r = Never \<and> s' = s\<lparr>location := p_url p\<rparr>"
      using u UpdatedCheck True by (simp add: update_continue_def native_navigation_def)
    then show ?thesis using left[OF UpdatedCheck True] by blast
  next
    case False
    have "show_result p nr s = (r, s')" using u UpdatedCheck False by (simp add: update_continue_def)
    then show ?thesis using shown[of nr] UpdatedCheck False by blast
  qed
qed

section \<open>What a commit writes\<close>

lemma write_history_fields:
  "token (write_history p s) = token s"
  "invalidated (write_history p s) = invalidated s"
  "started (write_history p s) = started s"
  "scroll_positions (write_history p s) = scroll_positions s"
  by (simp_all add: write_history_def history_write_def Let_def split: option.splits)

lemma render_fields:
  "token (render u r s) = token s"
  "invalidated (render u r s) = invalidated s"
  "current (render u r s) = nr_state r"
  "current_history_index (render u r s) = current_history_index s"
  "history (render u r s) = history s"
  "history_pos (render u r s) = history_pos s"
  "scroll_positions (render u r s) = scroll_positions s"
  "location (render u r s) = location s"
  by (simp_all add: render_def initialize_def set_page_url_def Let_def split: option.splits)

lemma restore_scroll_fields:
  "token (restore_scroll e p s) = token s"
  "invalidated (restore_scroll e p s) = invalidated s"
  "current (restore_scroll e p s) = current s"
  "current_history_index (restore_scroll e p s) = current_history_index s"
  "history (restore_scroll e p s) = history s"
  "history_pos (restore_scroll e p s) = history_pos s"
  "scroll_positions (restore_scroll e p s) = scroll_positions s"
  "root_props (restore_scroll e p s) = root_props s"
  "location (restore_scroll e p s) = location s"
  by (simp_all add: restore_scroll_def split: option.splits)

lemma finish_update_fields:
  "token (finish_update p r s) = token s"
  "invalidated (finish_update p r s) = invalidated s"
  "current (finish_update p r s) = current s"
  "current_history_index (finish_update p r s) = current_history_index s"
  "history (finish_update p r s) = history s"
  "history_pos (finish_update p r s) = history_pos s"
  "scroll_positions (finish_update p r s) = scroll_positions s"
  "root_props (finish_update p r s) = root_props s"
  "location (finish_update p r s) = location s"
  by (simp_all add: finish_update_def Let_def split: option.splits)

lemma update_finish_fields:
  "token (update_finish e p r s) = token s"
  "invalidated (update_finish e p r s) = invalidated s"
  "current (update_finish e p r s) = current s"
  "current_history_index (update_finish e p r s) = current_history_index s"
  "history (update_finish e p r s) = history s"
  "history_pos (update_finish e p r s) = history_pos s"
  "scroll_positions (update_finish e p r s) = scroll_positions s"
  "root_props (update_finish e p r s) = root_props s"
  "location (update_finish e p r s) = location s"
  by (simp_all add: update_finish_def finish_update_fields restore_scroll_fields)

lemma show_result_outcome:
  "fst (show_result p r s)
     = AwaitTick (if started s then set_page_url (p_url p) r else r)"
  by (simp add: show_result_def Let_def write_history_fields)

lemma show_result_fields:
  "token (snd (show_result p r s)) = token s"
  "invalidated (snd (show_result p r s)) = invalidated s"
  "current (snd (show_result p r s)) = nr_state r"
  "scroll_positions (snd (show_result p r s)) = scroll_positions s"
  by (simp_all add: show_result_def Let_def render_fields write_history_fields)

lemma show_result_root_props:
  "root_props (snd (show_result p r s))
     = Some (nr_props (if started s then set_page_url (p_url p) r else r))"
  by (simp add: show_result_def Let_def render_def initialize_def write_history_fields)

lemma show_result_history:
  "history (snd (show_result p r s)) = history (write_history p s)"
  "history_pos (snd (show_result p r s)) = history_pos (write_history p s)"
  "current_history_index (snd (show_result p r s)) = current_history_index (write_history p s)"
  "location (snd (show_result p r s)) = location (write_history p s)"
  by (simp_all add: show_result_def Let_def render_fields write_history_def history_write_def
      split: option.splits)

section \<open>Evaluating the example\<close>

lemmas ex_defs = ex_env_def ex_client_def create_client_def ex_url_def plain_def no_reads_def
  layout_module_def error_module_def post_load_def post_module_def theme_load_def theme_layout_def
  about_load_def about_module_def broken_load_def broken_module_def redirect_to_def a_module_def
  b_module_def static_route_def posts_route_def posts_intent_def about_intent_def

lemmas load_defs = get_navigation_intent_def stripped_def load_route_def load_input_for_def
  position_opts_def previous_node_def is_shadow_page_def boundary_opts_def
  compute_changed_def load_position_def changed_since_last_render_def load_changed_def load_node_def
  get_navigation_result_from_branch_def merge_stuff_def loaded_stuff_def Let_def
  add_dependency_def href_def List.map_filter_def has_redirect_def node_cache_def node_redirect_def
  page_changed_def root_stuff_def caught_def redirect_result_def fresh_stuff_def timer_delay_def

lemmas nav_defs = goto_def navigate_def show_result_def write_history_def render_def
  restore_scroll_def finish_update_def history_write_def initialize_def set_page_url_def
  leaf_router_def update_resume_def update_continue_def update_finish_def update_settle_def
  update_start_def update_scroll_positions_def
  default_goto_opts_def started_pending_def not_found_page_def redirect_loop_page_def
  load_root_error_page_def redirect_target_def is_error_page_def page_status_def

text \<open>
  The committed visits, written so that each step is evaluated once.
\<close>

lemma ex_committed_run:
  "ex_committed
     = (case ex_visit of (r, s) \<Rightarrow> snd (update_settle ex_env (case r of NavStarted p \<Rightarrow> p) s))"
  by (simp add: ex_committed_def the_pending_def case_prod_beta)


section \<open>In-flight loads and the cache-bypass flag\<close>

text \<open>
  C7, as the code has it. \<open>load_route\<close> tests \<open>load_cache.id === id && load_cache.promise\<close>
  before it looks at \<open>no_cache\<close>: when a load for the same id is recorded in \<open>load_cache\<close>,
  its promise is returned and nothing else happens, whether \<open>no_cache\<close> is true or false.
  \<open>no_cache\<close> guards the lookup in the result cache only.
\<close>

theorem load_route_returns_in_flight:
  assumes "load_cache_id s = Some (i_id it)" and "load_cache_promise s = Some promise"
  shows "load_route e it no_cache s = (promise, s)"
  using assms by (simp add: load_route_def)

theorem load_route_returns_in_flight_witness:
  "load_route ex_env (posts_intent ''1'' []) True ex_prefetched
     = (fst (prefetch ex_env (ex_url ''/posts/1'' []) ex_client), ex_prefetched)
   \<and> load_route ex_env (posts_intent ''1'' []) False ex_prefetched
     = (fst (prefetch ex_env (ex_url ''/posts/1'' []) ex_client), ex_prefetched)"
proof -
  have 1: "load_cache_id ex_prefetched = Some (i_id (posts_intent ''1'' []))"
    by (simp add: ex_prefetched_def prefetch_def ex_defs load_defs)
  have 2: "load_cache_promise ex_prefetched
             = Some (fst (prefetch ex_env (ex_url ''/posts/1'' []) ex_client))"
    by (simp add: ex_prefetched_def prefetch_def ex_defs load_defs)
  show ?thesis
    using load_route_returns_in_flight[OF 1 2, of ex_env True]
      load_route_returns_in_flight[OF 1 2, of ex_env False]
    by simp
qed

text \<open>
  C7 as stated fails: after \<open>prefetch\<close> of \<open>/posts/1\<close> the load of that id is recorded;
  \<open>load_route\<close> with \<open>no_cache = true\<close> returns the recorded promise and calls no loader
  (the call log stays as it was), while the same call without the record would have run
  the page's \<open>load\<close> (module 3) again.
\<close>

theorem bypass_cache_returns_in_flight_counterexample:
  "load_cache_id ex_prefetched = Some (i_id (posts_intent ''1'' [])) \<and>
   Some (fst (load_route ex_env (posts_intent ''1'' []) True ex_prefetched))
     = load_cache_promise ex_prefetched \<and>
   load_log (snd (load_route ex_env (posts_intent ''1'' []) True ex_prefetched))
     = load_log ex_prefetched \<and>
   load_log (snd (load_route ex_env (posts_intent ''1'' []) True
                    (ex_prefetched\<lparr>load_cache_promise := None\<rparr>)))
     = load_log ex_prefetched @ [3]"
  by (simp add: ex_prefetched_def prefetch_def ex_defs load_defs)

section \<open>Prefetching a URL outside the application\<close>

lemma find_route_None:
  "\<forall>r \<in> set rs. r_exec r path = None \<Longrightarrow> find_route rs path = None"
  by (induction rs) (auto split: option.splits)

text \<open>
  C9, as the code has it. \<open>get_navigation_intent\<close> tests origin and base first, then
  calls \<open>decodeURI\<close> on the stripped pathname, and only then asks the routes. When the URL
  has another origin, or its pathname does not start with \<open>base\<close>, or the stripped
  pathname decodes to a path that no route of the manifest matches, \<open>prefetch\<close> rejects
  with "Attempted to prefetch a URL that does not belong to this app". When origin and
  base fit and \<open>decodeURI\<close> refuses the stripped pathname, no route is asked at all:
  \<open>get_navigation_intent\<close> throws the URIError and \<open>prefetch\<close> rejects with that error
  instead. In all four cases \<open>load_cache\<close> is as before and no loader has run.
\<close>

theorem prefetch_rejects_url_outside_app:
  "(origin u \<noteq> origin (location s) \<or> \<not> prefix (base e) (pathname u) \<or>
      (\<exists>path. decodeURI e (stripped e u) = Some path \<and>
              (\<forall>r \<in> set (routes e). r_exec r path = None)) \<longrightarrow>
      prefetch e u s
        = (Rejected (Error (next_ref s) not_in_app), s\<lparr>next_ref := Suc (next_ref s)\<rparr>)
      \<and> load_cache_id (snd (prefetch e u s)) = load_cache_id s
      \<and> load_cache_promise (snd (prefetch e u s)) = load_cache_promise s
      \<and> load_log (snd (prefetch e u s)) = load_log s)
   \<and> (origin u = origin (location s) \<and> prefix (base e) (pathname u)
        \<and> decodeURI e (stripped e u) = None \<longrightarrow>
      prefetch e u s
        = (Rejected (Error (next_ref s) ''URI malformed''), s\<lparr>next_ref := Suc (next_ref s)\<rparr>)
      \<and> load_cache_id (snd (prefetch e u s)) = load_cache_id s
      \<and> load_cache_promise (snd (prefetch e u s)) = load_cache_promise s
      \<and> load_log (snd (prefetch e u s)) = load_log s)"
proof -
  have 1: "origin u \<noteq> origin (location s) \<or> \<not> prefix (base e) (pathname u) \<or>
      (\<exists>path. decodeURI e (stripped e u) = Some path \<and>
              (\<forall>r \<in> set (routes e). r_exec r path = None)) \<longrightarrow>
      prefetch e u s
        = (Rejected (Error (next_ref s) not_in_app), s\<lparr>next_ref := Suc (next_ref s)\<rparr>)
      \<and> load_cache_id (snd (prefetch e u s)) = load_cache_id s
      \<and> load_cache_promise (snd (prefetch e u s)) = load_cache_promise s
      \<and> load_log (snd (prefetch e u s)) = load_log s"
  proof
    assume a: "origin u \<noteq> origin (location s) \<or> \<not> prefix (base e) (pathname u) \<or>
      (\<exists>path. decodeURI e (stripped e u) = Some path \<and>
              (\<forall>r \<in> set (routes e). r_exec r path = None))"
    have "get_navigation_intent e u s = (Inr None, s)"
      using a by (auto simp: get_navigation_intent_def find_route_None)
    then show "prefetch e u s
        = (Rejected (Error (next_ref s) not_in_app), s\<lparr>next_ref := Suc (next_ref s)\<rparr>)
      \<and> load_cache_id (snd (prefetch e u s)) = load_cache_id s
      \<and> load_cache_promise (snd (prefetch e u s)) = load_cache_promise s
      \<and> load_log (snd (prefetch e u s)) = load_log s"
      by (simp add: prefetch_def)
  qed
  have 2: "origin u = origin (location s) \<and> prefix (base e) (pathname u)
        \<and> decodeURI e (stripped e u) = None \<longrightarrow>
      prefetch e u s
        = (Rejected (Error (next_ref s) ''URI malformed''), s\<lparr>next_ref := Suc (next_ref s)\<rparr>)
      \<and> load_cache_id (snd (prefetch e u s)) = load_cache_id s
      \<and> load_cache_promise (snd (prefetch e u s)) = load_cache_promise s
      \<and> load_log (snd (prefetch e u s)) = load_log s"
    by (simp add: prefetch_def get_navigation_intent_def)
  show ?thesis by (intro conjI 1 2)
qed

theorem prefetch_rejects_url_outside_app_witness:
  "prefetch ex_env \<lparr>origin = ''http://elsewhere'', pathname = ''/about'', search = [],
                     hash = []\<rparr> ex_client
     = (Rejected (Error 1 not_in_app), ex_client\<lparr>next_ref := 2\<rparr>)
   \<and> prefetch (ex_env\<lparr>base := ''/app''\<rparr>) (ex_url ''/about'' []) ex_client
     = (Rejected (Error 1 not_in_app), ex_client\<lparr>next_ref := 2\<rparr>)
   \<and> prefetch ex_env (ex_url ''/nowhere'' []) ex_client
     = (Rejected (Error 1 not_in_app), ex_client\<lparr>next_ref := 2\<rparr>)
   \<and> prefetch ex_env (ex_url ''/%'' []) ex_client
     = (Rejected (Error 1 ''URI malformed''), ex_client\<lparr>next_ref := 2\<rparr>)
   \<and> load_cache_promise (ex_client\<lparr>next_ref := 2\<rparr>) = None"
proof -
  have 1: "origin \<lparr>origin = ''http://elsewhere'', pathname = ''/about'', search = [], hash = []\<rparr>
             \<noteq> origin (location ex_client)"
    by (simp add: ex_defs)
  have 2: "\<not> prefix (base (ex_env\<lparr>base := ''/app''\<rparr>)) (pathname (ex_url ''/about'' []))"
    by (simp add: ex_defs)
  have 3: "\<exists>path. decodeURI ex_env (stripped ex_env (ex_url ''/nowhere'' [])) = Some path \<and>
                   (\<forall>r \<in> set (routes ex_env). r_exec r path = None)"
    by (simp add: ex_defs stripped_def)
  have 4: "origin (ex_url ''/%'' []) = origin (location ex_client)
           \<and> prefix (base ex_env) (pathname (ex_url ''/%'' []))
           \<and> decodeURI ex_env (stripped ex_env (ex_url ''/%'' [])) = None"
    by (simp add: ex_defs stripped_def)
  have n: "next_ref ex_client = 1" by (simp add: ex_client_def create_client_def)
  show ?thesis
    using prefetch_rejects_url_outside_app[of _ ex_client ex_env, THEN conjunct1, THEN mp,
        OF disjI1, OF 1]
      prefetch_rejects_url_outside_app[of "ex_url ''/about'' []" ex_client
        "ex_env\<lparr>base := ''/app''\<rparr>", THEN conjunct1, THEN mp, OF disjI2, OF disjI1, OF 2]
      prefetch_rejects_url_outside_app[of "ex_url ''/nowhere'' []" ex_client ex_env,
        THEN conjunct1, THEN mp, OF disjI2, OF disjI2, OF 3]
      prefetch_rejects_url_outside_app[of "ex_url ''/%'' []" ex_client ex_env,
        THEN conjunct2, THEN mp, OF 4]
    by (simp add: n ex_client_def create_client_def)
qed

text \<open>
  C9 as stated fails for its third kind of URL. \<open>/%\<close> has the origin of the app and
  starts with the (empty) base, and no route of the manifest matches its stripped
  pathname; \<open>prefetch\<close> rejects, but with the URIError of \<open>decodeURI\<close> and not with
  "Attempted to prefetch a URL that does not belong to this app".
\<close>

theorem prefetch_malformed_pathname_counterexample:
  "origin (ex_url ''/%'' []) = origin (location ex_client)
   \<and> prefix (base ex_env) (pathname (ex_url ''/%'' []))
   \<and> find_route (routes ex_env) (stripped ex_env (ex_url ''/%'' [])) = None
   \<and> fst (prefetch ex_env (ex_url ''/%'' []) ex_client) = Rejected (Error 1 ''URI malformed'')
   \<and> ''URI malformed'' \<noteq> not_in_app"
  by (simp add: prefetch_def not_in_app_def ex_defs load_defs)
section \<open>Last navigation wins\<close>







section \<open>The invalidation predicates\<close>










section \<open>replaceState and the history index\<close>

lemma write_history_replace:
  assumes "p_opts p = Some opts" and "no_details opts = Some True"
  shows "current_history_index (write_history p s) = current_history_index s"
    and "history (write_history p s)
           = (history s)[history_pos s := \<lparr>he_index = Some (current_history_index s),
                                            he_url = p_url p\<rparr>]"
    and "history_pos (write_history p s) = history_pos s"
  using assms by (simp_all add: write_history_def history_write_def)

lemma show_result_replace:
  assumes "p_opts p = Some opts" and "no_details opts = Some True"
  shows "current_history_index (snd (show_result p r s)) = current_history_index s"
    and "history (snd (show_result p r s))
           = (history s)[history_pos s := \<lparr>he_index = Some (current_history_index s),
                                            he_url = p_url p\<rparr>]"
    and "history_pos (snd (show_result p r s)) = history_pos s"
  using write_history_replace[OF assms, of s]
  by (simp_all add: show_result_history)

text \<open>
  What a piece of \<open>update\<close> called with \<open>replaceState\<close> may do to the history and the
  scroll map, from \<open>s\<close> to \<open>s'\<close> with outcome \<open>r\<close>.
\<close>

lemma update_resume_replace:
  assumes o: "p_opts p = Some opts" "no_details opts = Some True"
    and u: "update_resume e p s = (r, s')"
  shows "current_history_index s' = current_history_index s
       \<and> length (history s') = length (history s) \<and> history_pos s' = history_pos s
       \<and> dom (scroll_positions s') \<subseteq> insert (current_history_index s) (dom (scroll_positions s))
       \<and> ((\<exists>shown. r = AwaitTick shown) \<and> history_pos s < length (history s) \<longrightarrow>
            he_index (history s' ! history_pos s') = Some (current_history_index s))"
  using u
proof (cases rule: update_resume_cases)
  case (loop nr res)
  note f = redirect_loop_page_frame[OF loop(5)]
  show ?thesis
    using outside_load_fields(4,5,7,8)[OF f] loop(6) by auto
next
  case (follow nr started_nav)
  show ?thesis
    using goto_index[OF follow(5)] goto_history[OF follow(5)] goto_scroll[OF follow(5)] follow(6)
    by auto
next
  case (shown nr)
  have s': "s' = snd (show_result p nr (s\<lparr>invalidated := []\<rparr>))" using shown(5) by simp
  show ?thesis
    using show_result_replace[OF o, of nr "s\<lparr>invalidated := []\<rparr>"]
    by (auto simp: s' show_result_fields)
qed auto

lemma update_continue_replace:
  assumes o: "p_opts p = Some opts" "no_details opts = Some True"
    and u: "update_continue e p a s = (r, s')"
  shows "current_history_index s' = current_history_index s
       \<and> length (history s') = length (history s) \<and> history_pos s' = history_pos s
       \<and> dom (scroll_positions s') \<subseteq> insert (current_history_index s) (dom (scroll_positions s))
       \<and> ((\<exists>shown. r = AwaitTick shown) \<and> history_pos s < length (history s) \<longrightarrow>
            he_index (history s' ! history_pos s') = Some (current_history_index s))"
  using u
proof (cases rule: update_continue_cases)
  case (shown nr)
  have s': "s' = snd (show_result p nr s)" using shown(2) by simp
  show ?thesis
    using show_result_replace[OF o, of nr s]
    by (auto simp: s' show_result_fields)
qed auto

lemma update_resume_not_completed:
  assumes u: "update_resume e p s = (r, s')"
  shows "r \<noteq> Completed"
  using u
proof (cases rule: update_resume_cases)
  case (shown nr)
  then show ?thesis using show_result_outcome[of p nr "s\<lparr>invalidated := []\<rparr>"] by auto
qed simp_all

lemma update_continue_not_completed:
  assumes u: "update_continue e p a s = (r, s')"
  shows "r \<noteq> Completed"
  using u
proof (cases rule: update_continue_cases)
  case (shown nr)
  then show ?thesis using show_result_outcome[of p nr s] by auto
qed simp_all

lemma update_settle_replace:
  assumes o: "p_opts p = Some opts" "no_details opts = Some True"
    and u: "update_settle e p s = (r, s')"
  shows "current_history_index s' = current_history_index s
       \<and> length (history s') = length (history s) \<and> history_pos s' = history_pos s
       \<and> dom (scroll_positions s') \<subseteq> insert (current_history_index s) (dom (scroll_positions s))
       \<and> (r = Completed \<and> history_pos s < length (history s) \<longrightarrow>
            he_index (history s' ! history_pos s') = Some (current_history_index s))"
proof -
  obtain r1 s1 where r1: "update_resume e p s = (r1, s1)" by (cases "update_resume e p s")
  note a = update_resume_replace[OF o r1]
  show ?thesis
  proof (cases r1)
    case (AwaitTick shown)
    have "r = Completed" "s' = update_finish e p shown s1"
      using u r1 AwaitTick by (simp_all add: update_settle_def)
    then show ?thesis using a AwaitTick by (auto simp: update_finish_fields)
  next
    case (AwaitCheck aw)
    obtain r2 s2 where r2: "update_continue e p aw s1 = (r2, s2)"
      by (cases "update_continue e p aw s1")
    note b = update_continue_replace[OF o r2]
    have ab: "current_history_index s2 = current_history_index s
       \<and> length (history s2) = length (history s) \<and> history_pos s2 = history_pos s
       \<and> dom (scroll_positions s2) \<subseteq> insert (current_history_index s) (dom (scroll_positions s))
       \<and> ((\<exists>shown. r2 = AwaitTick shown) \<and> history_pos s < length (history s) \<longrightarrow>
            he_index (history s2 ! history_pos s2) = Some (current_history_index s))"
    proof -
      have i: "current_history_index s1 = current_history_index s"
        and l: "length (history s1) = length (history s)"
        and h: "history_pos s1 = history_pos s"
        and d1: "dom (scroll_positions s1)
                   \<subseteq> insert (current_history_index s) (dom (scroll_positions s))"
        using a by simp_all
      have d2: "dom (scroll_positions s2)
                  \<subseteq> insert (current_history_index s) (dom (scroll_positions s1))"
        using b i by simp
      have d: "dom (scroll_positions s2)
                 \<subseteq> insert (current_history_index s) (dom (scroll_positions s))"
        using d1 d2 by blast
      have r: "current_history_index s2 = current_history_index s"
        "length (history s2) = length (history s)" "history_pos s2 = history_pos s"
        using b i l h by simp_all
      have x: "(\<exists>shown. r2 = AwaitTick shown) \<and> history_pos s < length (history s) \<longrightarrow>
            he_index (history s2 ! history_pos s2) = Some (current_history_index s)"
        using b i l h by metis
      show ?thesis by (intro conjI r d x)
    qed
    show ?thesis
    proof (cases r2)
      case (AwaitTick shown)
      have "r = Completed" "s' = update_finish e p shown s2"
        using u r1 AwaitCheck r2 AwaitTick by (simp_all add: update_settle_def)
      then show ?thesis using ab AwaitTick by (auto simp: update_finish_fields)
    qed (use u r1 AwaitCheck r2 ab update_continue_not_completed[OF r2] in
        \<open>auto simp: update_settle_def\<close>)
  qed (use u r1 a update_resume_not_completed[OF r1] in \<open>auto simp: update_settle_def\<close>)
qed

text \<open>
  C8. A \<open>goto\<close> with \<open>replaceState: true\<close> that gets as far as calling \<open>update\<close> stores
  the scroll offset in the slot of the current history index (a map: the slot is
  overwritten, no second entry) and leaves the index and the history alone. However the
  \<open>update\<close> it started ends when it runs on alone (also when it finds the token stale,
  follows a redirect or shows the redirect-loop page), \<open>current_history_index\<close> is what it
  was (\<open>change = 0\<close>), the history has as many entries as before, no scroll slot other than
  that of the current index is written, and after a commit the entry the browser is at
  carries that same index. The same holds piece by piece, in whatever state a piece of
  that \<open>update\<close> runs: when it resumes from its load, when it goes on after the wait that
  follows the token check, and when it finishes after \<open>tick()\<close>. Nothing in this needs
  the target to be the committed URL.
\<close>

theorem goto_replace_state_keeps_index:
  assumes g: "goto e u opts c s = (NavStarted p, s1)" and rs: "go_replaceState opts"
  shows "current_history_index s1 = current_history_index s
       \<and> history s1 = history s
       \<and> scroll_positions s1 = (scroll_positions s)(current_history_index s \<mapsto> scroll_state s)
       \<and> (\<forall>s2. current_history_index (snd (update_settle e p s2)) = current_history_index s2
             \<and> length (history (snd (update_settle e p s2))) = length (history s2)
             \<and> history_pos (snd (update_settle e p s2)) = history_pos s2
             \<and> dom (scroll_positions (snd (update_settle e p s2)))
                 \<subseteq> insert (current_history_index s2) (dom (scroll_positions s2))
             \<and> (fst (update_settle e p s2) = Completed \<and> history_pos s2 < length (history s2) \<longrightarrow>
                  he_index (history (snd (update_settle e p s2))
                              ! history_pos (snd (update_settle e p s2)))
                    = Some (current_history_index s2)))
       \<and> (\<forall>s2. current_history_index (snd (update_resume e p s2)) = current_history_index s2
             \<and> length (history (snd (update_resume e p s2))) = length (history s2)
             \<and> history_pos (snd (update_resume e p s2)) = history_pos s2
             \<and> dom (scroll_positions (snd (update_resume e p s2)))
                 \<subseteq> insert (current_history_index s2) (dom (scroll_positions s2))
             \<and> ((\<exists>shown. fst (update_resume e p s2) = AwaitTick shown)
                  \<and> history_pos s2 < length (history s2) \<longrightarrow>
                  he_index (history (snd (update_resume e p s2))
                              ! history_pos (snd (update_resume e p s2)))
                    = Some (current_history_index s2)))
       \<and> (\<forall>a s2. current_history_index (snd (update_continue e p a s2)) = current_history_index s2
             \<and> length (history (snd (update_continue e p a s2))) = length (history s2)
             \<and> history_pos (snd (update_continue e p a s2)) = history_pos s2
             \<and> dom (scroll_positions (snd (update_continue e p a s2)))
                 \<subseteq> insert (current_history_index s2) (dom (scroll_positions s2))
             \<and> ((\<exists>shown. fst (update_continue e p a s2) = AwaitTick shown)
                  \<and> history_pos s2 < length (history s2) \<longrightarrow>
                  he_index (history (snd (update_continue e p a s2))
                              ! history_pos (snd (update_continue e p a s2)))
                    = Some (current_history_index s2)))
       \<and> (\<forall>shown s2. current_history_index (update_finish e p shown s2) = current_history_index s2
             \<and> history (update_finish e p shown s2) = history s2
             \<and> history_pos (update_finish e p shown s2) = history_pos s2
             \<and> scroll_positions (update_finish e p shown s2) = scroll_positions s2)"
  using g
proof (cases rule: goto_cases)
  case (started nopts)
  have p: "p_opts p = Some nopts"
    using started(2) by (cases rule: update_start_cases) auto
  have d: "no_details nopts = Some True" using started(3) rs by simp
  have a: "current_history_index s1 = current_history_index s" using goto_index[OF g] .
  have b: "history s1 = history s" using goto_history[OF g] by simp
  have c: "scroll_positions s1 = (scroll_positions s)(current_history_index s \<mapsto> scroll_state s)"
    using update_start_scroll[OF started(2)] by (simp add: accepted_state_fields)
  have r0: "\<forall>s2. current_history_index (snd (update_settle e p s2)) = current_history_index s2
             \<and> length (history (snd (update_settle e p s2))) = length (history s2)
             \<and> history_pos (snd (update_settle e p s2)) = history_pos s2
             \<and> dom (scroll_positions (snd (update_settle e p s2)))
                 \<subseteq> insert (current_history_index s2) (dom (scroll_positions s2))
             \<and> (fst (update_settle e p s2) = Completed \<and> history_pos s2 < length (history s2) \<longrightarrow>
                  he_index (history (snd (update_settle e p s2))
                              ! history_pos (snd (update_settle e p s2)))
                    = Some (current_history_index s2))"
    by (intro allI) (rule update_settle_replace[OF p d prod.collapse[symmetric]])
  have r1: "\<forall>s2. current_history_index (snd (update_resume e p s2)) = current_history_index s2
             \<and> length (history (snd (update_resume e p s2))) = length (history s2)
             \<and> history_pos (snd (update_resume e p s2)) = history_pos s2
             \<and> dom (scroll_positions (snd (update_resume e p s2)))
                 \<subseteq> insert (current_history_index s2) (dom (scroll_positions s2))
             \<and> ((\<exists>shown. fst (update_resume e p s2) = AwaitTick shown)
                  \<and> history_pos s2 < length (history s2) \<longrightarrow>
                  he_index (history (snd (update_resume e p s2))
                              ! history_pos (snd (update_resume e p s2)))
                    = Some (current_history_index s2))"
    by (intro allI) (rule update_resume_replace[OF p d prod.collapse[symmetric]])
  have r2: "\<forall>a s2. current_history_index (snd (update_continue e p a s2)) = current_history_index s2
             \<and> length (history (snd (update_continue e p a s2))) = length (history s2)
             \<and> history_pos (snd (update_continue e p a s2)) = history_pos s2
             \<and> dom (scroll_positions (snd (update_continue e p a s2)))
                 \<subseteq> insert (current_history_index s2) (dom (scroll_positions s2))
             \<and> ((\<exists>shown. fst (update_continue e p a s2) = AwaitTick shown)
                  \<and> history_pos s2 < length (history s2) \<longrightarrow>
                  he_index (history (snd (update_continue e p a s2))
                              ! history_pos (snd (update_continue e p a s2)))
                    = Some (current_history_index s2))"
    by (intro allI) (rule update_continue_replace[OF p d prod.collapse[symmetric]])
  have r3: "\<forall>shown s2. current_history_index (update_finish e p shown s2) = current_history_index s2
             \<and> history (update_finish e p shown s2) = history s2
             \<and> history_pos (update_finish e p shown s2) = history_pos s2
             \<and> scroll_positions (update_finish e p shown s2) = scroll_positions s2"
    by (simp add: update_finish_fields)
  show ?thesis by (intro conjI a b c r0 r1 r2 r3)
qed simp_all

lemma ex_again_chain:
  "case (ex_committed, True) of (sc, u) \<Rightarrow>
   case goto ex_env (ex_url ''/posts/1'' []) (default_goto_opts\<lparr>go_replaceState := True\<rparr>) [] sc
     of (ra, sa) \<Rightarrow>
   case update_settle ex_env (case ra of NavStarted p \<Rightarrow> p) sa of (rd, sd) \<Rightarrow>
     ra = NavStarted (case ra of NavStarted p \<Rightarrow> p)
     \<and> current_history_index sc = 1001
     \<and> length (history sc) = 2
     \<and> ns_url (current sc) = Some (ex_url ''/posts/1'' [])
     \<and> location sc = ex_url ''/posts/1'' []
     \<and> rd = Completed"
  by (simp add: ex_committed_run ex_visit_def ex_defs load_defs nav_defs)

lemma ex_again_eval:
  "fst ex_again = NavStarted (the_pending ex_again)"
  "current_history_index ex_committed = 1001"
  "length (history ex_committed) = 2"
  "ns_url (current ex_committed) = Some (ex_url ''/posts/1'' [])"
  "location ex_committed = ex_url ''/posts/1'' []"
  "fst (update_settle ex_env (the_pending ex_again) (snd ex_again)) = Completed"
  using ex_again_chain by (simp_all add: ex_again_def the_pending_def case_prod_beta)

theorem goto_replace_state_keeps_index_witness:
  "ns_url (current ex_committed) = Some (ex_url ''/posts/1'' [])
   \<and> current_history_index ex_committed = 1001
   \<and> fst (update_settle ex_env (the_pending ex_again) (snd ex_again)) = Completed
   \<and> current_history_index (snd (update_settle ex_env (the_pending ex_again) (snd ex_again))) = 1001
   \<and> length (history (snd (update_settle ex_env (the_pending ex_again) (snd ex_again)))) = 2
   \<and> scroll_positions (snd ex_again)
       = (scroll_positions ex_committed)(1001 \<mapsto> scroll_state ex_committed)"
proof -
  have g: "goto ex_env (ex_url ''/posts/1'' []) (default_goto_opts\<lparr>go_replaceState := True\<rparr>) []
             ex_committed = (NavStarted (the_pending ex_again), snd ex_again)"
    using ex_again_eval(1) by (simp add: ex_again_def prod_eq_iff)
  have o: "go_replaceState (default_goto_opts\<lparr>go_replaceState := True\<rparr>)" by simp
  note w = goto_replace_state_keeps_index[OF g o]
  have 1: "current_history_index (snd ex_again) = 1001"
    and 2: "history (snd ex_again) = history ex_committed"
    and 3: "scroll_positions (snd ex_again)
              = (scroll_positions ex_committed)(1001 \<mapsto> scroll_state ex_committed)"
    using w[THEN conjunct1] w[THEN conjunct2, THEN conjunct1]
      w[THEN conjunct2, THEN conjunct2, THEN conjunct1] ex_again_eval(2) by simp_all
  note ws = w[THEN conjunct2, THEN conjunct2, THEN conjunct2, THEN conjunct1, THEN spec,
      of "snd ex_again"]
  have 4: "current_history_index (snd (update_settle ex_env (the_pending ex_again) (snd ex_again)))
             = current_history_index (snd ex_again)"
    using ws by (rule conjunct1)
  have 5: "length (history (snd (update_settle ex_env (the_pending ex_again) (snd ex_again))))
             = length (history (snd ex_again))"
    using ws[THEN conjunct2] by (rule conjunct1)
  show ?thesis using 1 2 3 4 5 ex_again_eval by simp
qed
section \<open>The redirect-loop guard\<close>

lemma load_root_error_page_result:
  assumes l: "load_root_error_page e ep s = (Inr r, s')"
    and fresh: "map_option err_ref (ns_error (current s)) \<noteq> Some (err_ref (ep_error ep))"
  shows "ns_error (nr_state r) = Some (ep_error ep)
       \<and> ns_url (nr_state r) = Some (ep_url ep)
       \<and> (\<exists>L E. default_layout e = Inr L \<and> default_error e = Inr E
                 \<and> map (map_option bn_module) (ns_branch (nr_state r)) = [Some L, Some E])
       \<and> pr_page (nr_props r)
           = Some \<lparr>pg_error = Some (ep_error ep), pg_params = [], pg_routeId = ep_routeId ep,
                   pg_status = ep_status ep, pg_stuff = ns_stuff (nr_state r), pg_url = ep_url ep\<rparr>"
proof -
  obtain L where L: "default_layout e = Inr L"
    using l by (cases "default_layout e") (simp_all add: load_root_error_page_def)
  obtain st0 s0 where f0: "fresh_stuff [] s = (st0, s0)" by (cases "fresh_stuff [] s")
  obtain n1 s1 where n1: "load_node e \<lparr>o_status = None, o_error = None, o_module = L,
                 o_url = ep_url ep, o_params = [], o_stuff = st0, o_props = None,
                 o_routeId = ep_routeId ep\<rparr> s0 = (n1, s1)"
    by (cases "load_node e \<lparr>o_status = None, o_error = None, o_module = L,
                 o_url = ep_url ep, o_params = [], o_stuff = st0, o_props = None,
                 o_routeId = ep_routeId ep\<rparr> s0")
  obtain root_layout where rl: "n1 = Inr root_layout"
    using l L f0 n1 by (cases n1) (simp_all add: load_root_error_page_def)
  obtain E where E: "default_error e = Inr E"
    using l L f0 n1 rl by (cases "default_error e") (simp_all add: load_root_error_page_def)
  obtain st1 s2 where f1: "(case loaded_stuff root_layout of
                         Some st \<Rightarrow> (st, s1) | None \<Rightarrow> fresh_stuff [] s1) = (st1, s2)"
    by (cases "(case loaded_stuff root_layout of
                         Some st \<Rightarrow> (st, s1) | None \<Rightarrow> fresh_stuff [] s1)")
  obtain n2 s3 where n2: "load_node e \<lparr>o_status = ep_status ep, o_error = Some (ep_error ep),
                         o_module = E, o_url = ep_url ep, o_params = [],
                         o_stuff = st1, o_props = None, o_routeId = ep_routeId ep\<rparr> s2 = (n2, s3)"
    by (cases "load_node e \<lparr>o_status = ep_status ep, o_error = Some (ep_error ep),
                         o_module = E, o_url = ep_url ep, o_params = [],
                         o_stuff = st1, o_props = None, o_routeId = ep_routeId ep\<rparr> s2")
  obtain root_error where re: "n2 = Inr root_error"
    using l L f0 n1 rl E f1 n2 by (cases n2) (simp_all add: load_root_error_page_def)
  obtain st s4 where f2: "fresh_stuff (spread (stuff_entries (loaded_stuff root_layout))
                                              (stuff_entries (loaded_stuff root_error))) s3 = (st, s4)"
    by (cases "fresh_stuff (spread (stuff_entries (loaded_stuff root_layout))
                                              (stuff_entries (loaded_stuff root_error))) s3")
  have g: "get_navigation_result_from_branch
                                \<lparr>g_url = ep_url ep, g_params = [], g_stuff = st,
                                 g_branch = [Some root_layout, Some root_error],
                                 g_status = ep_status ep, g_error = Some (ep_error ep),
                                 g_routeId = ep_routeId ep\<rparr> s4 = (r, s')"
    using l L f0 n1 rl E f1 n2 re f2
    by (simp add: load_root_error_page_def split: prod.splits)
  have c0: "current s0 = current s" using outside_load_fields(3)[OF fresh_stuff_frame[OF f0]] .
  have c1: "current s1 = current s0" using outside_load_fields(3)[OF load_node_frame[OF n1]] .
  have c2: "current s2 = current s1"
    using f1 outside_load_fields(3)[OF fresh_stuff_frame, of "[]" s1 st1 s2]
    by (cases "loaded_stuff root_layout") simp_all
  have c3: "current s3 = current s2" using outside_load_fields(3)[OF load_node_frame[OF n2]] .
  have c4: "current s4 = current s3" using outside_load_fields(3)[OF fresh_stuff_frame[OF f2]] .
  have cur: "current s4 = current s" using c0 c1 c2 c3 c4 by simp
  have pc: "page_changed (current s4) (ep_url ep) (Some (ep_error ep)) st"
    using fresh cur by (auto simp: page_changed_def)
  have m1: "bn_module root_layout = L" using load_node_module n1 rl by fastforce
  have m2: "bn_module root_error = E" using load_node_module n2 re by fastforce
  show ?thesis
    using gnrfb_result[OF g] pc L E m1 m2 by simp
qed


lemma load_root_error_page_plain:
  assumes "default_layout e = Inr L" "default_error e = Inr E" "m_load L = None" "m_load E = None"
  shows "\<exists>r. fst (load_root_error_page e ep s) = Inr r"
  using assms
  by (simp add: load_root_error_page_def load_node_def fresh_stuff_def loaded_stuff_def Let_def
      split: prod.splits)

lemma update_settle_loop:
  assumes l: "p_load p = Resolved r" and t: "token s = p_token p"
    and rd: "truthy (nr_redirect r)"
    and lp: "10 < length (p_redirect_chain p) \<or> pathname (p_url p) \<in> set (p_redirect_chain p)"
    and pg: "redirect_loop_page e (p_url p) (s\<lparr>invalidated := []\<rparr>) = (res, s2)"
  shows "update_settle e p s
           = (case res of
                Inl x \<Rightarrow> (Threw x, s2)
              | Inr ep \<Rightarrow>
                  (Completed,
                   update_finish e p (if started s2 then set_page_url (p_url p) ep else ep)
                     (snd (show_result p ep s2))))"
proof -
  have u: "update_resume e p s = (AwaitCheck (ErrorPage res), s2)"
    using l t rd lp pg by (simp add: update_resume_def Let_def)
  show ?thesis
  proof (cases res)
    case (Inl x)
    then show ?thesis using u by (simp add: update_settle_def update_continue_def)
  next
    case (Inr ep)
    obtain st where sr: "show_result p ep s2
            = (AwaitTick (if started s2 then set_page_url (p_url p) ep else ep), st)"
      using show_result_outcome[of p ep s2] by (cases "show_result p ep s2") auto
    have c: "update_continue e p (ErrorPage (Inr ep)) s2
               = (AwaitTick (if started s2 then set_page_url (p_url p) ep else ep), st)"
      using sr by (simp add: update_continue_def)
    have "update_settle e p s
            = (Completed,
               update_finish e p (if started s2 then set_page_url (p_url p) ep else ep) st)"
      using u Inr c by (simp add: update_settle_def)
    then show ?thesis using Inr sr by simp
  qed
qed

text \<open>
  C2, as the code has it. An \<open>update\<close> holds the current token and its load has resolved
  to a redirect. If the redirect chain it was called with has more than ten entries, or
  contains the pathname of its URL, the redirect is not followed: \<open>update\<close> issues no
  \<open>goto\<close> and does not leave for the server; the history, the address bar, the token and
  \<open>current\<close> are as they were. It asks for the root error page with status 500 and a new
  \<open>Error('Redirect loop')\<close> and waits for it.

  That load has no \<open>catch\<close> around it. When the import or the \<open>load\<close> of the root layout
  or of the root error component throws, \<open>update\<close> rejects with what was thrown, and
  nothing is rendered. Otherwise the page is one whose branch is root layout and root
  error component, whose error is the new one and whose status is 500, and \<open>update\<close>
  renders it when the wait ends, in whatever state the client is by then: \<open>current\<close> is
  the state of that page and the props handed to the render target carry it. Root
  components without a \<open>load\<close> of their own cannot throw, so with them the page is always
  shown. The last hypothesis says that the new Error object is not the one \<open>current\<close>
  already holds, which is what makes \<open>page_changed\<close> true.
\<close>

theorem redirect_loop_guard:
  assumes l: "p_load p = Resolved r" and t: "token s = p_token p"
    and rd: "truthy (nr_redirect r)"
    and lp: "10 < length (p_redirect_chain p) \<or> pathname (p_url p) \<in> set (p_redirect_chain p)"
    and fresh: "map_option err_ref (ns_error (current s)) \<noteq> Some (next_ref s)"
    and pg: "redirect_loop_page e (p_url p) (s\<lparr>invalidated := []\<rparr>) = (res, s2)"
  shows "update_resume e p s = (AwaitCheck (ErrorPage res), s2)
       \<and> history s2 = history s \<and> location s2 = location s \<and> token s2 = token s
       \<and> current s2 = current s \<and> root_props s2 = root_props s
       \<and> (\<forall>x. res = Inl x \<longrightarrow>
              update_settle e p s = (Threw x, s2)
              \<and> (\<forall>s3. update_continue e p (ErrorPage res) s3 = (Threw x, s3)))
       \<and> (\<forall>ep. res = Inr ep \<longrightarrow>
              ns_error (nr_state ep) = Some (Error (next_ref s) redirect_loop)
              \<and> (\<exists>L E. default_layout e = Inr L \<and> default_error e = Inr E
                    \<and> map (map_option bn_module) (ns_branch (nr_state ep)) = [Some L, Some E])
              \<and> (\<exists>pg. pr_page (nr_props ep) = Some pg \<and> pg_status pg = Some 500
                    \<and> pg_error pg = Some (Error (next_ref s) redirect_loop))
              \<and> fst (update_settle e p s) = Completed
              \<and> current (snd (update_settle e p s)) = nr_state ep
              \<and> (\<forall>s3. (\<exists>shown. fst (update_continue e p (ErrorPage res) s3) = AwaitTick shown)
                    \<and> current (snd (update_continue e p (ErrorPage res) s3)) = nr_state ep
                    \<and> (\<exists>pr pg. root_props (snd (update_continue e p (ErrorPage res) s3)) = Some pr
                          \<and> pr_page pr = Some pg \<and> pg_status pg = Some 500
                          \<and> pg_error pg = Some (Error (next_ref s) redirect_loop))))
       \<and> (\<forall>L E. default_layout e = Inr L \<and> default_error e = Inr E
              \<and> m_load L = None \<and> m_load E = None \<longrightarrow> (\<exists>ep. res = Inr ep))"
proof -
  note f = redirect_loop_page_frame[OF pg]
  have 1: "update_resume e p s = (AwaitCheck (ErrorPage res), s2)"
    using l t rd lp pg by (simp add: update_resume_def Let_def)
  have 2: "history s2 = history s" "location s2 = location s" "token s2 = token s"
    "current s2 = current s" "root_props s2 = root_props s"
    using outside_load_fields(4,6,1,3,9)[OF f] by simp_all
  note st = update_settle_loop[OF l t rd lp pg]
  have 3: "\<forall>x. res = Inl x \<longrightarrow>
              update_settle e p s = (Threw x, s2)
              \<and> (\<forall>s3. update_continue e p (ErrorPage res) s3 = (Threw x, s3))"
    using st by (simp add: update_continue_def)
  have 4: "\<forall>ep. res = Inr ep \<longrightarrow>
              ns_error (nr_state ep) = Some (Error (next_ref s) redirect_loop)
              \<and> (\<exists>L E. default_layout e = Inr L \<and> default_error e = Inr E
                    \<and> map (map_option bn_module) (ns_branch (nr_state ep)) = [Some L, Some E])
              \<and> (\<exists>pg. pr_page (nr_props ep) = Some pg \<and> pg_status pg = Some 500
                    \<and> pg_error pg = Some (Error (next_ref s) redirect_loop))
              \<and> fst (update_settle e p s) = Completed
              \<and> current (snd (update_settle e p s)) = nr_state ep
              \<and> (\<forall>s3. (\<exists>shown. fst (update_continue e p (ErrorPage res) s3) = AwaitTick shown)
                    \<and> current (snd (update_continue e p (ErrorPage res) s3)) = nr_state ep
                    \<and> (\<exists>pr pg. root_props (snd (update_continue e p (ErrorPage res) s3)) = Some pr
                          \<and> pr_page pr = Some pg \<and> pg_status pg = Some 500
                          \<and> pg_error pg = Some (Error (next_ref s) redirect_loop)))"
  proof (intro allI impI)
    fix ep assume Inr: "res = Inr ep"
    have lr: "load_root_error_page e
                \<lparr>ep_status = Some 500, ep_error = Error (next_ref s) redirect_loop,
                 ep_url = p_url p, ep_routeId = None\<rparr>
                (s\<lparr>invalidated := [], next_ref := Suc (next_ref s)\<rparr>) = (Inr ep, s2)"
      using pg Inr by (simp add: redirect_loop_page_def)
    have res: "ns_error (nr_state ep) = Some (Error (next_ref s) redirect_loop)
       \<and> (\<exists>L E. default_layout e = Inr L \<and> default_error e = Inr E
                 \<and> map (map_option bn_module) (ns_branch (nr_state ep)) = [Some L, Some E])
       \<and> pr_page (nr_props ep)
           = Some \<lparr>pg_error = Some (Error (next_ref s) redirect_loop), pg_params = [],
                   pg_routeId = None, pg_status = Some 500, pg_stuff = ns_stuff (nr_state ep),
                   pg_url = p_url p\<rparr>"
      using load_root_error_page_result[OF lr] fresh by simp
    have a: "ns_error (nr_state ep) = Some (Error (next_ref s) redirect_loop)"
      and b: "\<exists>L E. default_layout e = Inr L \<and> default_error e = Inr E
                 \<and> map (map_option bn_module) (ns_branch (nr_state ep)) = [Some L, Some E]"
      and c: "\<exists>pg. pr_page (nr_props ep) = Some pg \<and> pg_status pg = Some 500
                    \<and> pg_error pg = Some (Error (next_ref s) redirect_loop)"
      using res by simp_all
    have d: "fst (update_settle e p s) = Completed"
      "current (snd (update_settle e p s)) = nr_state ep"
      using st Inr by (simp_all add: update_finish_fields show_result_fields)
    have g: "(\<exists>shown. fst (update_continue e p (ErrorPage res) s3) = AwaitTick shown)
                    \<and> current (snd (update_continue e p (ErrorPage res) s3)) = nr_state ep
                    \<and> (\<exists>pr pg. root_props (snd (update_continue e p (ErrorPage res) s3)) = Some pr
                          \<and> pr_page pr = Some pg \<and> pg_status pg = Some 500
                          \<and> pg_error pg = Some (Error (next_ref s) redirect_loop))" for s3
      using res Inr
      by (simp add: update_continue_def show_result_outcome show_result_fields
          show_result_root_props set_page_url_def)
    show "ns_error (nr_state ep) = Some (Error (next_ref s) redirect_loop)
              \<and> (\<exists>L E. default_layout e = Inr L \<and> default_error e = Inr E
                    \<and> map (map_option bn_module) (ns_branch (nr_state ep)) = [Some L, Some E])
              \<and> (\<exists>pg. pr_page (nr_props ep) = Some pg \<and> pg_status pg = Some 500
                    \<and> pg_error pg = Some (Error (next_ref s) redirect_loop))
              \<and> fst (update_settle e p s) = Completed
              \<and> current (snd (update_settle e p s)) = nr_state ep
              \<and> (\<forall>s3. (\<exists>shown. fst (update_continue e p (ErrorPage res) s3) = AwaitTick shown)
                    \<and> current (snd (update_continue e p (ErrorPage res) s3)) = nr_state ep
                    \<and> (\<exists>pr pg. root_props (snd (update_continue e p (ErrorPage res) s3)) = Some pr
                          \<and> pr_page pr = Some pg \<and> pg_status pg = Some 500
                          \<and> pg_error pg = Some (Error (next_ref s) redirect_loop)))"
      using a b c d g by blast
  qed
  have 5: "\<forall>L E. default_layout e = Inr L \<and> default_error e = Inr E
              \<and> m_load L = None \<and> m_load E = None \<longrightarrow> (\<exists>ep. res = Inr ep)"
  proof (intro allI impI, elim conjE)
    fix L E assume h: "default_layout e = Inr L" "default_error e = Inr E" "m_load L = None"
      "m_load E = None"
    obtain ep where "fst (load_root_error_page e
                \<lparr>ep_status = Some 500, ep_error = Error (next_ref s) redirect_loop,
                 ep_url = p_url p, ep_routeId = None\<rparr>
                (s\<lparr>invalidated := [], next_ref := Suc (next_ref s)\<rparr>)) = Inr ep"
      using load_root_error_page_plain[OF h] by blast
    then show "\<exists>ep. res = Inr ep"
      using pg by (simp add: redirect_loop_page_def)
  qed
  show ?thesis by (intro conjI 1 2 3 4 5)
qed

text \<open>
  The loop \<open>/a\<close> to \<open>/b\<close> to \<open>/a\<close>: the navigation waiting at its end has the chain
  \<open>['/a', '/b']\<close> and the URL \<open>/a\<close>.
\<close>

lemma ex_loop_chain:
  "case loop_first ex_env of (r1, s1) \<Rightarrow>
   case update_resume ex_env (case r1 of NavStarted p \<Rightarrow> p) s1 of (r2, s2) \<Rightarrow>
   case update_resume ex_env (case r2 of ReturnedFalse (Some (NavStarted p)) \<Rightarrow> p) s2
     of (r3, s3) \<Rightarrow>
   case (case r3 of ReturnedFalse (Some (NavStarted p)) \<Rightarrow> p, True) of (p3, u) \<Rightarrow>
   case ((case r2 of ReturnedFalse (Some (NavStarted p)) \<Rightarrow> p)
           \<lparr>p_redirect_chain := [''/1'', ''/2'', ''/3'', ''/4'', ''/5'', ''/6'', ''/7'', ''/8'',
                                 ''/9'', ''/10'', ''/11'']\<rparr>, True) of (p11, u) \<Rightarrow>
     p_redirect_chain p3 = [''/a'', ''/b'']
     \<and> p_url p3 = ex_url ''/a'' []
     \<and> p_load p3 = Resolved (the_result p3)
     \<and> token s3 = p_token p3
     \<and> truthy (nr_redirect (the_result p3))
     \<and> map_option err_ref (ns_error (current s3)) \<noteq> Some (next_ref s3)
     \<and> length (p_redirect_chain p11) = 11
     \<and> distinct (p_redirect_chain p11)
     \<and> pathname (p_url p11) \<notin> set (p_redirect_chain p11)
     \<and> p_load p11 = Resolved (the_result p11)
     \<and> token s2 = p_token p11
     \<and> truthy (nr_redirect (the_result p11))
     \<and> map_option err_ref (ns_error (current s2)) \<noteq> Some (next_ref s2)"
  by (simp add: loop_first_def the_result_def ex_defs load_defs nav_defs)

lemma ex_loop_eval:
  "p_redirect_chain (the_followed (loop_third ex_env)) = [''/a'', ''/b'']"
  "p_url (the_followed (loop_third ex_env)) = ex_url ''/a'' []"
  "p_load (the_followed (loop_third ex_env))
     = Resolved (the_result (the_followed (loop_third ex_env)))"
  "token (snd (loop_third ex_env)) = p_token (the_followed (loop_third ex_env))"
  "truthy (nr_redirect (the_result (the_followed (loop_third ex_env))))"
  "map_option err_ref (ns_error (current (snd (loop_third ex_env))))
     \<noteq> Some (next_ref (snd (loop_third ex_env)))"
  using ex_loop_chain
  by (simp_all add: loop_third_def loop_second_def the_followed_def the_pending_def
      case_prod_beta)

lemma ex_eleven_eval:
  "length (p_redirect_chain ex_eleven) = 11"
  "distinct (p_redirect_chain ex_eleven)"
  "pathname (p_url ex_eleven) \<notin> set (p_redirect_chain ex_eleven)"
  "p_load ex_eleven = Resolved (the_result ex_eleven)"
  "token (snd (loop_second ex_env)) = p_token ex_eleven"
  "truthy (nr_redirect (the_result ex_eleven))"
  "map_option err_ref (ns_error (current (snd (loop_second ex_env))))
     \<noteq> Some (next_ref (snd (loop_second ex_env)))"
  using ex_loop_chain
  by (simp_all add: ex_eleven_def loop_second_def the_followed_def the_pending_def
      case_prod_beta)

lemma ex_env_roots:
  "default_layout ex_env = Inr layout_module \<and> default_error ex_env = Inr error_module
   \<and> m_load layout_module = None \<and> m_load error_module = None"
  by (simp add: ex_env_def layout_module_def error_module_def)

theorem redirect_loop_guard_witness:
  "p_redirect_chain (the_followed (loop_third ex_env)) = [''/a'', ''/b'']
   \<and> pathname (p_url (the_followed (loop_third ex_env))) = ''/a''
   \<and> fst (update_settle ex_env (the_followed (loop_third ex_env)) (snd (loop_third ex_env)))
       = Completed
   \<and> ns_error (current (snd (update_settle ex_env (the_followed (loop_third ex_env))
                                (snd (loop_third ex_env)))))
       = Some (Error (next_ref (snd (loop_third ex_env))) redirect_loop)
   \<and> length (p_redirect_chain ex_eleven) = 11 \<and> distinct (p_redirect_chain ex_eleven)
   \<and> pathname (p_url ex_eleven) \<notin> set (p_redirect_chain ex_eleven)
   \<and> fst (update_settle ex_env ex_eleven (snd (loop_second ex_env))) = Completed
   \<and> ns_error (current (snd (update_settle ex_env ex_eleven (snd (loop_second ex_env)))))
       = Some (Error (next_ref (snd (loop_second ex_env))) redirect_loop)"
proof -
  have lp1: "10 < length (p_redirect_chain (the_followed (loop_third ex_env)))
             \<or> pathname (p_url (the_followed (loop_third ex_env)))
                 \<in> set (p_redirect_chain (the_followed (loop_third ex_env)))"
    using ex_loop_eval(1,2) by (simp add: ex_url_def)
  have lp2: "10 < length (p_redirect_chain ex_eleven)
             \<or> pathname (p_url ex_eleven) \<in> set (p_redirect_chain ex_eleven)"
    using ex_eleven_eval(1) by simp
  note w1 = redirect_loop_guard[of _ _ _ ex_env, OF ex_loop_eval(3,4,5) lp1 ex_loop_eval(6)
      prod.collapse[symmetric]]
  note w2 = redirect_loop_guard[of _ _ _ ex_env, OF ex_eleven_eval(4,5,6) lp2 ex_eleven_eval(7)
      prod.collapse[symmetric]]
  obtain ep1 where p1: "fst (redirect_loop_page ex_env (p_url (the_followed (loop_third ex_env)))
                               (snd (loop_third ex_env)\<lparr>invalidated := []\<rparr>)) = Inr ep1"
    using w1 ex_env_roots by blast
  obtain ep2 where p2: "fst (redirect_loop_page ex_env (p_url ex_eleven)
                               (snd (loop_second ex_env)\<lparr>invalidated := []\<rparr>)) = Inr ep2"
    using w2 ex_env_roots by blast
  have e1: "fst (update_settle ex_env (the_followed (loop_third ex_env)) (snd (loop_third ex_env)))
              = Completed
            \<and> ns_error (current (snd (update_settle ex_env (the_followed (loop_third ex_env))
                                         (snd (loop_third ex_env)))))
              = Some (Error (next_ref (snd (loop_third ex_env))) redirect_loop)"
    using w1 p1 by metis
  have e2: "fst (update_settle ex_env ex_eleven (snd (loop_second ex_env))) = Completed
            \<and> ns_error (current (snd (update_settle ex_env ex_eleven (snd (loop_second ex_env)))))
              = Some (Error (next_ref (snd (loop_second ex_env))) redirect_loop)"
    using w2 p2 by metis
  show ?thesis
    using e1 e2 ex_loop_eval(1,2) ex_eleven_eval(1,2,3)
    by (simp add: ex_url_def)
qed

text \<open>
  C2 as stated fails where the root error page cannot be loaded. With a root layout
  whose \<open>load\<close> throws, the loop \<open>/a\<close> to \<open>/b\<close> to \<open>/a\<close> is detected at the second \<open>/a\<close> as
  before, but the navigation does not resolve to the root error page: \<open>update\<close> rejects
  with the error of the layout, and \<open>current\<close> and the rendered props are what they were.
\<close>

lemma ex_down_chain:
  "case loop_first down_env of (r1, s1) \<Rightarrow>
   case update_resume down_env (case r1 of NavStarted p \<Rightarrow> p) s1 of (r2, s2) \<Rightarrow>
   case update_resume down_env (case r2 of ReturnedFalse (Some (NavStarted p)) \<Rightarrow> p) s2
     of (r3, s3) \<Rightarrow>
   case (case r3 of ReturnedFalse (Some (NavStarted p)) \<Rightarrow> p, True) of (p3, u) \<Rightarrow>
   case update_settle down_env p3 s3 of (r4, s4) \<Rightarrow>
     p_redirect_chain p3 = [''/a'', ''/b'']
     \<and> pathname (p_url p3) = ''/a''
     \<and> p_load p3 = Resolved (the_result p3)
     \<and> nr_redirect (the_result p3) = Some ''/b''
     \<and> token s3 = p_token p3
     \<and> r4 = Threw (Error 77 ''layout down'')
     \<and> current s4 = current s3
     \<and> root_props s4 = root_props s3
     \<and> history s4 = history s3"
  by (simp add: loop_first_def down_env_def down_layout_def the_result_def ex_defs load_defs
      nav_defs)

theorem redirect_loop_rejects_counterexample:
  "p_redirect_chain (the_followed (loop_third down_env)) = [''/a'', ''/b'']
   \<and> pathname (p_url (the_followed (loop_third down_env))) = ''/a''
   \<and> p_load (the_followed (loop_third down_env))
       = Resolved (the_result (the_followed (loop_third down_env)))
   \<and> nr_redirect (the_result (the_followed (loop_third down_env))) = Some ''/b''
   \<and> token (snd (loop_third down_env)) = p_token (the_followed (loop_third down_env))
   \<and> fst (update_settle down_env (the_followed (loop_third down_env)) (snd (loop_third down_env)))
       = Threw (Error 77 ''layout down'')
   \<and> current (snd (update_settle down_env (the_followed (loop_third down_env))
                      (snd (loop_third down_env))))
       = current (snd (loop_third down_env))
   \<and> root_props (snd (update_settle down_env (the_followed (loop_third down_env))
                         (snd (loop_third down_env))))
       = root_props (snd (loop_third down_env))"
  using ex_down_chain
  by (simp add: loop_third_def loop_second_def the_followed_def the_pending_def case_prod_beta)
section \<open>Reusing a branch node\<close>















section \<open>A redirect aborts the branch load\<close>















section \<open>A load function that returns nothing\<close>




















section \<open>The result cache\<close>

















end
